theory Spec2Isabelle
  imports Complex_Main "HOL-Library.Sublist" "HOL-Library.Monad_Syntax"
begin

section \<open>Numbers\<close>

text \<open>
  A number as \<^verbatim>\<open>JSON.parse\<close> returns it: a finite one, kept as the exact value of its
  literal (the rounding to a double is left out), or, for a literal too large for a
  double such as \<^verbatim>\<open>1e309\<close>, one of the two infinities. \<^verbatim>\<open>NaN\<close> never comes out of
  \<^verbatim>\<open>JSON.parse\<close>. The order and zero are those of the language; \<open>is_integer\<close> is
  \<^verbatim>\<open>Number.isInteger\<close>, false of an infinity.
\<close>

datatype number = Finite rat | PosInfinity | NegInfinity

instantiation number :: "{zero, ord}"
begin

definition zero_number :: number where
  "zero_number = Finite 0"

definition less_eq_number :: "number \<Rightarrow> number \<Rightarrow> bool" where
  "less_eq_number a b =
     (case a of
        NegInfinity \<Rightarrow> True
      | Finite x \<Rightarrow> (case b of Finite y \<Rightarrow> x \<le> y | PosInfinity \<Rightarrow> True | NegInfinity \<Rightarrow> False)
      | PosInfinity \<Rightarrow> (case b of PosInfinity \<Rightarrow> True | _ \<Rightarrow> False))"

definition less_number :: "number \<Rightarrow> number \<Rightarrow> bool" where
  "less_number a b = (a \<le> b \<and> \<not> b \<le> a)"

instance ..

end

definition is_integer :: "number \<Rightarrow> bool" where
  "is_integer n = (case n of Finite r \<Rightarrow> rat_of_int \<lfloor>r\<rfloor> = r | _ \<Rightarrow> False)"

definition is_finite :: "number \<Rightarrow> bool" where
  "is_finite n = (case n of Finite r \<Rightarrow> True | _ \<Rightarrow> False)"

section \<open>JSON values\<close>

text \<open>
  The value that \<^verbatim>\<open>JSON.parse\<close> hands to the schema, and the value an object in memory
  is. An object is the list of its members in textual
  order; when a key is repeated \<^verbatim>\<open>JSON.parse\<close> keeps the last member, which is what
  \<open>get_prop\<close> reads. A property that is not there reads as \<^verbatim>\<open>undefined\<close>, here
  \<open>None\<close>; so does any property of an array or a scalar that this program asks for.
  \<open>has_null\<close> tells whether \<^verbatim>\<open>null\<close> occurs anywhere in a value.
\<close>

datatype json =
    JNull
  | JBool bool
  | JNum number
  | JStr string
  | JArr "json list"
  | JObj "(string \<times> json) list"

fun get_prop :: "json \<Rightarrow> string \<Rightarrow> json option" where
  "get_prop (JObj kvs) k = map_of (rev kvs) k"
| "get_prop _ k = None"

fun has_null :: "json \<Rightarrow> bool" where
  "has_null JNull = True"
| "has_null (JArr xs) = list_ex has_null xs"
| "has_null (JObj kvs) = list_ex (\<lambda>kv. has_null (snd kv)) kvs"
| "has_null _ = False"

section \<open>The schema combinators used by the two modules\<close>

text \<open>
  Each combinator takes the value found at a key (\<open>None\<close> for \<^verbatim>\<open>undefined\<close>) and
  returns the parsed value, or \<open>None\<close> when the schema raises an issue. The library
  collects every issue of an object before it fails; the model stops at the first one,
  which fails on the same inputs.
\<close>

fun z_string :: "json option \<Rightarrow> string option" where
  "z_string (Some (JStr s)) = Some s"
| "z_string _ = None"

text \<open>\<^verbatim>\<open>z.string().min(1)\<close>\<close>

fun z_string_min1 :: "json option \<Rightarrow> string option" where
  "z_string_min1 (Some (JStr s)) = (if 1 \<le> length s then Some s else None)"
| "z_string_min1 _ = None"

text \<open>
  \<^verbatim>\<open>z.number().nonnegative()\<close>: a number that is at least zero. The check for a
  number refuses \<^verbatim>\<open>NaN\<close> and nothing else, so the positive infinity passes.
\<close>

fun z_number_nonnegative :: "json option \<Rightarrow> number option" where
  "z_number_nonnegative (Some (JNum n)) = (if 0 \<le> n then Some n else None)"
| "z_number_nonnegative _ = None"

text \<open>\<^verbatim>\<open>z.number().int().nonnegative()\<close>\<close>

fun z_number_int_nonnegative :: "json option \<Rightarrow> number option" where
  "z_number_int_nonnegative (Some (JNum n)) =
     (if is_integer n \<and> 0 \<le> n then Some n else None)"
| "z_number_int_nonnegative _ = None"

fun z_enum :: "string list \<Rightarrow> json option \<Rightarrow> string option" where
  "z_enum vs (Some (JStr s)) = (if s \<in> set vs then Some s else None)"
| "z_enum vs _ = None"

fun z_array :: "(json option \<Rightarrow> 'a option) \<Rightarrow> json option \<Rightarrow> 'a list option" where
  "z_array p (Some (JArr xs)) = those (map (\<lambda>x. p (Some x)) xs)"
| "z_array p _ = None"

text \<open>\<^verbatim>\<open>.optional()\<close> lets \<^verbatim>\<open>undefined\<close> through, and nothing else.\<close>

fun z_optional :: "(json option \<Rightarrow> 'a option) \<Rightarrow> json option \<Rightarrow> 'a option option" where
  "z_optional p None = Some None"
| "z_optional p (Some v) = map_option Some (p (Some v))"


text \<open>\<^verbatim>\<open>z.object\<close> accepts an object only: not an array, not \<^verbatim>\<open>null\<close>, not a scalar.\<close>

fun is_object :: "json option \<Rightarrow> bool" where
  "is_object (Some (JObj kvs)) = True"
| "is_object _ = False"

section \<open>The document\<close>

text \<open>
  The fields of the four object shapes. A field name that two shapes share carries the
  shape's initial. \<open>sub_ingredients = None\<close> is an ingredient without that key. The
  integer fields stay numbers, as in the source; \<open>c_type\<close> stays a string.
\<close>

record sub_ingredient =
  s_name :: string
  s_amount_per_portion_grams :: number

record ingredient =
  i_name :: string
  i_amount_per_portion_grams :: number
  sub_ingredients :: "sub_ingredient list option"

record component =
  c_name :: string
  c_type :: string
  prep_time_minutes :: number
  cook_time_minutes :: number
  cook_temp_fahrenheit :: number
  cook_method :: string
  portion_weight_grams :: number
  ingredients :: "ingredient list"

record recipe =
  recipe_name :: string
  chef :: string
  yield_count :: number
  allergens :: "string list"
  components :: "component list"

section \<open>The route module: IngredientSchema and RecipeSchema\<close>

definition SubIngredientObject :: "json option \<Rightarrow> sub_ingredient option" where
  "SubIngredientObject v =
     (if \<not> is_object v then None
      else do {
        n \<leftarrow> z_string (get_prop (the v) ''name'');
        a \<leftarrow> z_number_nonnegative (get_prop (the v) ''amount_per_portion_grams'');
        Some \<lparr>s_name = n, s_amount_per_portion_grams = a\<rparr>
      })"

text \<open>The object part of \<^verbatim>\<open>IngredientSchema\<close>, before its transform.\<close>

definition IngredientObject :: "json option \<Rightarrow> ingredient option" where
  "IngredientObject v =
     (if \<not> is_object v then None
      else do {
        n \<leftarrow> z_string (get_prop (the v) ''name'');
        a \<leftarrow> z_number_nonnegative (get_prop (the v) ''amount_per_portion_grams'');
        s \<leftarrow> z_optional (z_array SubIngredientObject) (get_prop (the v) ''sub_ingredients'');
        Some \<lparr>i_name = n, i_amount_per_portion_grams = a, sub_ingredients = s\<rparr>
      })"

text \<open>
  The transform of \<^verbatim>\<open>IngredientSchema\<close>: \<open>result\<close> starts without the key, and gets
  it when \<^verbatim>\<open>data.sub_ingredients && data.sub_ingredients.length > 0\<close>. An array is
  truthy whatever its length, so the first conjunct asks that the key is there.
\<close>

definition IngredientTransform :: "ingredient \<Rightarrow> ingredient" where
  "IngredientTransform data =
     (let result = \<lparr>i_name = i_name data,
                    i_amount_per_portion_grams = i_amount_per_portion_grams data,
                    sub_ingredients = None\<rparr>
      in case sub_ingredients data of
           None \<Rightarrow> result
         | Some subs \<Rightarrow>
             if 0 < length subs then result\<lparr>sub_ingredients := Some subs\<rparr> else result)"

definition IngredientSchema :: "json option \<Rightarrow> ingredient option" where
  "IngredientSchema v = map_option IngredientTransform (IngredientObject v)"

definition component_types :: "string list" where
  "component_types = [''protein'', ''starch'', ''vegetable'', ''sauce'']"

definition ComponentObject :: "json option \<Rightarrow> component option" where
  "ComponentObject v =
     (if \<not> is_object v then None
      else do {
        n \<leftarrow> z_string (get_prop (the v) ''name'');
        t \<leftarrow> z_enum component_types (get_prop (the v) ''type'');
        p \<leftarrow> z_number_int_nonnegative (get_prop (the v) ''prep_time_minutes'');
        c \<leftarrow> z_number_int_nonnegative (get_prop (the v) ''cook_time_minutes'');
        f \<leftarrow> z_number_int_nonnegative (get_prop (the v) ''cook_temp_fahrenheit'');
        m \<leftarrow> z_string (get_prop (the v) ''cook_method'');
        w \<leftarrow> z_number_nonnegative (get_prop (the v) ''portion_weight_grams'');
        is \<leftarrow> z_array IngredientSchema (get_prop (the v) ''ingredients'');
        Some \<lparr>c_name = n, c_type = t, prep_time_minutes = p, cook_time_minutes = c,
              cook_temp_fahrenheit = f, cook_method = m, portion_weight_grams = w,
              ingredients = is\<rparr>
      })"

text \<open>The object part of \<^verbatim>\<open>RecipeSchema\<close>, before its transform.\<close>

definition RecipeObject :: "json option \<Rightarrow> recipe option" where
  "RecipeObject v =
     (if \<not> is_object v then None
      else do {
        n \<leftarrow> z_string (get_prop (the v) ''recipe_name'');
        c \<leftarrow> z_string (get_prop (the v) ''chef'');
        y \<leftarrow> z_number_nonnegative (get_prop (the v) ''yield_count'');
        a \<leftarrow> z_array z_string (get_prop (the v) ''allergens'');
        cs \<leftarrow> z_array ComponentObject (get_prop (the v) ''components'');
        Some \<lparr>recipe_name = n, chef = c, yield_count = y, allergens = a, components = cs\<rparr>
      })"

text \<open>
  The operator \<^verbatim>\<open>||\<close> at the three types the transform meets once the object part
  has accepted: a string is falsy when empty, a number when zero (an infinity is
  truthy), an array never.
\<close>

definition or_string :: "string \<Rightarrow> string \<Rightarrow> string" where
  "or_string s d = (if s = [] then d else s)"

definition or_number :: "number \<Rightarrow> number \<Rightarrow> number" where
  "or_number n d = (if n = 0 then d else n)"

definition or_array :: "'a list \<Rightarrow> 'a list \<Rightarrow> 'a list" where
  "or_array xs d = xs"

definition ComponentTransform :: "component \<Rightarrow> component" where
  "ComponentTransform component =
     component\<lparr>c_name := or_string (c_name component) ''Unknown Component'',
               c_type := or_string (c_type component) ''protein'',
               prep_time_minutes := or_number (prep_time_minutes component) 0,
               cook_time_minutes := or_number (cook_time_minutes component) 0,
               cook_temp_fahrenheit := or_number (cook_temp_fahrenheit component) 0,
               cook_method := or_string (cook_method component) [],
               portion_weight_grams := or_number (portion_weight_grams component) 0,
               ingredients := or_array (ingredients component) []\<rparr>"

definition RecipeTransform :: "recipe \<Rightarrow> recipe" where
  "RecipeTransform data =
     data\<lparr>recipe_name := or_string (recipe_name data) ''Unknown Recipe'',
          chef := or_string (chef data) [],
          yield_count := or_number (yield_count data) 0,
          allergens := or_array (allergens data) [],
          components := map ComponentTransform (or_array (components data) [])\<rparr>"

definition RecipeSchema :: "json option \<Rightarrow> recipe option" where
  "RecipeSchema v = map_option RecipeTransform (RecipeObject v)"

text \<open>
  \<^verbatim>\<open>parser.parse\<close>: the completion text goes through \<^verbatim>\<open>JSON.parse\<close> and the result
  through the schema; either failure leaves as the parser's one exception. The argument
  is what \<^verbatim>\<open>JSON.parse\<close> returned, \<open>None\<close> when it threw.
\<close>

datatype error = OutputParserException

definition parser_parse :: "json option \<Rightarrow> error + recipe" where
  "parser_parse parsed =
     (case parsed of
        None \<Rightarrow> Inl OutputParserException
      | Some j \<Rightarrow>
          (case RecipeSchema (Some j) of
             None \<Rightarrow> Inl OutputParserException
           | Some doc \<Rightarrow> Inr doc))"

section \<open>The document as an object and as a response body\<close>

text \<open>
  A document seen as a JSON value, with the way a number is shown left open. Keys come in
  the order of the schema; an ingredient whose \<open>sub_ingredients\<close> is \<open>None\<close> has no such
  key. With \<open>JNum\<close> this is the object in memory, the value a second run of the schema
  on the document reads (\<open>value_of_recipe\<close>). With \<open>written_number\<close> it is the body
  that \<^verbatim>\<open>NextResponse.json\<close> writes, which puts \<^verbatim>\<open>null\<close> for a number that is not
  finite (\<open>json_of_recipe\<close>).
\<close>

definition object_of_sub_ingredient :: "(number \<Rightarrow> json) \<Rightarrow> sub_ingredient \<Rightarrow> json" where
  "object_of_sub_ingredient w s =
     JObj [(''name'', JStr (s_name s)),
           (''amount_per_portion_grams'', w (s_amount_per_portion_grams s))]"

definition object_of_ingredient :: "(number \<Rightarrow> json) \<Rightarrow> ingredient \<Rightarrow> json" where
  "object_of_ingredient w i =
     JObj ([(''name'', JStr (i_name i)),
            (''amount_per_portion_grams'', w (i_amount_per_portion_grams i))]
           @ (case sub_ingredients i of
                None \<Rightarrow> []
              | Some subs \<Rightarrow> [(''sub_ingredients'', JArr (map (object_of_sub_ingredient w) subs))]))"

definition object_of_component :: "(number \<Rightarrow> json) \<Rightarrow> component \<Rightarrow> json" where
  "object_of_component w c =
     JObj [(''name'', JStr (c_name c)),
           (''type'', JStr (c_type c)),
           (''prep_time_minutes'', w (prep_time_minutes c)),
           (''cook_time_minutes'', w (cook_time_minutes c)),
           (''cook_temp_fahrenheit'', w (cook_temp_fahrenheit c)),
           (''cook_method'', JStr (cook_method c)),
           (''portion_weight_grams'', w (portion_weight_grams c)),
           (''ingredients'', JArr (map (object_of_ingredient w) (ingredients c)))]"

definition object_of_recipe :: "(number \<Rightarrow> json) \<Rightarrow> recipe \<Rightarrow> json" where
  "object_of_recipe w d =
     JObj [(''recipe_name'', JStr (recipe_name d)),
           (''chef'', JStr (chef d)),
           (''yield_count'', w (yield_count d)),
           (''allergens'', JArr (map JStr (allergens d))),
           (''components'', JArr (map (object_of_component w) (components d)))]"

definition written_number :: "number \<Rightarrow> json" where
  "written_number n = (if is_finite n then JNum n else JNull)"

definition value_of_recipe :: "recipe \<Rightarrow> json" where
  "value_of_recipe d = object_of_recipe JNum d"

definition json_of_sub_ingredient :: "sub_ingredient \<Rightarrow> json" where
  "json_of_sub_ingredient s = object_of_sub_ingredient written_number s"

definition json_of_ingredient :: "ingredient \<Rightarrow> json" where
  "json_of_ingredient i = object_of_ingredient written_number i"

definition json_of_recipe :: "recipe \<Rightarrow> json" where
  "json_of_recipe d = object_of_recipe written_number d"

section \<open>The extractRecipe module: its RecipeSchema\<close>






section \<open>The prompt of the route module\<close>

text \<open>
  A message template after the template library has split it at its placeholders.
  Filling it appends, for each placeholder, the string bound to its name as it is, and
  fails when a name is not bound. Characters outside ASCII are given by their UTF-8
  bytes.
\<close>

datatype template_node = Literal string | Variable string

fun interpolate :: "template_node list \<Rightarrow> (string \<rightharpoonup> string) \<Rightarrow> string option" where
  "interpolate [] values = Some []"
| "interpolate (Literal s # ns) values = map_option (\<lambda>r. s @ r) (interpolate ns values)"
| "interpolate (Variable x # ns) values =
     (case values x of
        None \<Rightarrow> None
      | Some s \<Rightarrow> map_option (\<lambda>r. s @ r) (interpolate ns values))"

definition systemPrompt :: string where
  \<open>systemPrompt =
     ''\<newline>''
     @ ''You are an expert culinary data extraction specialist. You must analyze the PROVIDED RECIPE TEXT and extract ALL information from IT ONLY into valid, complete JSON with PROPER NESTED INGREDIENT STRUCTURE.\<newline>''
     @ ''\<newline>''
     @ [CHR 0xF0, CHR 0x9F, CHR 0x9A, CHR 0xA8] @ '' CRITICAL: PROCESS ONLY THE PROVIDED RECIPE TEXT - DO NOT USE EXAMPLES OR TEMPLATES! '' @ [CHR 0xF0, CHR 0x9F, CHR 0x9A, CHR 0xA8] @ ''\<newline>''
     @ ''\<newline>''
     @ ''EXTRACTION RULES:\<newline>''
     @ ''- EXTRACT data from the actual recipe text provided by the user\<newline>''
     @ ''- DO NOT copy example names like "Mediterranean Herb-Crusted Salmon"\<newline>''
     @ ''- USE the actual recipe name, ingredients, and details from the PROVIDED TEXT\<newline>''
     @ ''- Process the REAL content, not templates or examples\<newline>''
     @ ''\<newline>''
     @ ''CRITICAL JSON RULES:\<newline>''
     @ ''- NEVER return null values - use empty strings "" or N/A for missing data\<newline>''
     @ ''- ALWAYS return valid JSON structure matching the exact schema\<newline>''
     @ ''- ALL string fields must be actual strings, not null\<newline>''
     @ ''- ALL number fields must be actual numbers, not null\<newline>''
     @ ''- ALWAYS include all 4 component types: protein, starch, vegetable, sauce\<newline>''
     @ ''- HANDLE NESTED INGREDIENTS PROPERLY - do not flatten them!\<newline>''
     @ ''- Only include sub_ingredients property when ingredient has sub-components\<newline>''
     @ ''- Be thorough and extract all available data\<newline>''\<close>

text \<open>The human message of the prompt: the text before, between and after its two placeholders.\<close>

definition human_opening :: string where
  \<open>human_opening =
     ''You must extract complete recipe data and return ONLY valid JSON with no null values and PROPER NESTED INGREDIENTS.\<newline>''
     @ ''\<newline>''
     @ ''    Schema format:\<newline>''
     @ ''    ''\<close>

definition human_middle :: string where
  \<open>human_middle =
     ''\<newline>''
     @ ''\<newline>''
     @ ''    Recipe text to extract from:\<newline>''
     @ ''    ''\<close>

definition human_closing :: string where
  \<open>human_closing =
     ''\<newline>''
     @ ''\<newline>''
     @ ''    Return ONLY the complete JSON object with EXACT field names and proper ingredient nesting:''\<close>

definition human_template :: "template_node list" where
  "human_template =
     [Literal human_opening, Variable ''format_instructions'',
      Literal human_middle, Variable ''recipe_text'',
      Literal human_closing]"

definition prompt :: "(string \<times> template_node list) list" where
  "prompt = [(''system'', [Literal systemPrompt]), (''human'', human_template)]"

text \<open>\<^verbatim>\<open>prompt.invoke\<close>: every message filled from the same bindings, roles kept.\<close>

fun format_messages ::
  "(string \<times> template_node list) list \<Rightarrow> (string \<rightharpoonup> string) \<Rightarrow> (string \<times> string) list option"
where
  "format_messages [] values = Some []"
| "format_messages ((role, t) # ms) values =
     (case interpolate t values of
        None \<Rightarrow> None
      | Some s \<Rightarrow> map_option (\<lambda>r. (role, s) # r) (format_messages ms values))"

definition prompt_invoke :: "string \<Rightarrow> string \<Rightarrow> (string \<times> string) list option" where
  "prompt_invoke recipe_text format_instructions =
     format_messages prompt
       [''recipe_text'' \<mapsto> recipe_text, ''format_instructions'' \<mapsto> format_instructions]"

section \<open>The route handler\<close>

text \<open>
  \<open>decode\<close> is the parser's way from completion text to a JSON value (\<open>None\<close> when the
  text is not JSON), \<open>model\<close> the completion service (\<open>None\<close> when the call throws),
  \<open>format_instructions\<close> the schema rendered by the parser; all three belong to
  libraries and are taken as given. \<open>body\<close> is the result of \<^verbatim>\<open>request.json()\<close>,
  \<open>None\<close> when it throws. Everything in the handler sits in one \<^verbatim>\<open>try\<close>, so each
  exception ends in \<open>failure_response\<close>; destructuring \<^verbatim>\<open>null\<close> is one of them.
\<close>

record response =
  status :: nat
  payload :: json

definition failure_response :: response where
  "failure_response =
     \<lparr>status = 500, payload = JObj [(''error'', JStr ''Failed to extract recipe data'')]\<rparr>"

definition required_response :: response where
  "required_response =
     \<lparr>status = 400, payload = JObj [(''error'', JStr ''Recipe text is required'')]\<rparr>"

fun truthy :: "json option \<Rightarrow> bool" where
  "truthy None = False"
| "truthy (Some JNull) = False"
| "truthy (Some (JBool b)) = b"
| "truthy (Some (JNum n)) = (n \<noteq> 0)"
| "truthy (Some (JStr s)) = (s \<noteq> [])"
| "truthy (Some (JArr xs)) = True"
| "truthy (Some (JObj kvs)) = True"

fun typeof_string :: "json option \<Rightarrow> bool" where
  "typeof_string (Some (JStr s)) = True"
| "typeof_string _ = False"

fun string_of :: "json option \<Rightarrow> string" where
  "string_of (Some (JStr s)) = s"
| "string_of _ = []"

definition POST ::
  "(string \<Rightarrow> json option) \<Rightarrow> ((string \<times> string) list \<Rightarrow> string option) \<Rightarrow> string
     \<Rightarrow> json option \<Rightarrow> response"
where
  "POST decode model format_instructions body =
     (case body of
        None \<Rightarrow> failure_response
      | Some JNull \<Rightarrow> failure_response
      | Some b \<Rightarrow>
          (let recipeText = get_prop b ''recipeText'' in
           if \<not> truthy recipeText \<or> \<not> typeof_string recipeText then required_response
           else
             (case prompt_invoke (string_of recipeText) format_instructions of
                None \<Rightarrow> failure_response
              | Some messages \<Rightarrow>
                  (case model messages of
                     None \<Rightarrow> failure_response
                   | Some text \<Rightarrow>
                       (case parser_parse (decode text) of
                          Inl e \<Rightarrow> failure_response
                        | Inr result \<Rightarrow> \<lparr>status = 200, payload = json_of_recipe result\<rparr>)))))"

section \<open>The invariants of a document\<close>

text \<open>
  What the data model asks of every document that leaves the pipeline, as predicates
  that can be evaluated: amounts, weights, times and counts are not negative, the three
  integer fields are integers, the type is one of the four, the two names are not
  empty, and \<open>sub_ingredients\<close> is either missing or not empty.
\<close>

definition sub_ingredient_ok :: "sub_ingredient \<Rightarrow> bool" where
  "sub_ingredient_ok s = (0 \<le> s_amount_per_portion_grams s)"

definition ingredient_ok :: "ingredient \<Rightarrow> bool" where
  "ingredient_ok i =
     (0 \<le> i_amount_per_portion_grams i \<and>
      (case sub_ingredients i of
         None \<Rightarrow> True
       | Some subs \<Rightarrow> subs \<noteq> [] \<and> list_all sub_ingredient_ok subs))"

definition component_ok :: "component \<Rightarrow> bool" where
  "component_ok c =
     (c_name c \<noteq> [] \<and> c_type c \<in> set component_types \<and>
      is_integer (prep_time_minutes c) \<and> 0 \<le> prep_time_minutes c \<and>
      is_integer (cook_time_minutes c) \<and> 0 \<le> cook_time_minutes c \<and>
      is_integer (cook_temp_fahrenheit c) \<and> 0 \<le> cook_temp_fahrenheit c \<and>
      0 \<le> portion_weight_grams c \<and>
      list_all ingredient_ok (ingredients c))"

definition recipe_ok :: "recipe \<Rightarrow> bool" where
  "recipe_ok d =
     (recipe_name d \<noteq> [] \<and> 0 \<le> yield_count d \<and> list_all component_ok (components d))"

section \<open>Sample completions\<close>

text \<open>The two soups and the two ingredients of the specification's scenarios.\<close>

definition soup_minimal :: json where
  "soup_minimal = JObj [(''recipe_name'', JStr ''Soup''), (''components'', JArr [])]"

definition soup_complete :: json where
  "soup_complete =
     JObj [(''recipe_name'', JStr ''Soup''), (''chef'', JStr []), (''yield_count'', JNum (Finite 0)),
           (''allergens'', JArr []), (''components'', JArr [])]"

definition salt :: json where
  "salt =
     JObj [(''name'', JStr ''Salt''), (''amount_per_portion_grams'', JNum (Finite 2)),
           (''sub_ingredients'', JArr [])]"

definition panko :: json where
  "panko = JObj [(''name'', JStr ''Panko''), (''amount_per_portion_grams'', JNum (Finite 12))]"

definition herb_mix :: json where
  "herb_mix =
     JObj [(''name'', JStr ''Herb mix''), (''amount_per_portion_grams'', JNum (Finite 20)),
           (''sub_ingredients'', JArr [panko])]"

text \<open>
  A one-component recipe with every key in place; the recipe name, the component's name
  and type and its ingredients are left open.
\<close>

definition sample_component :: "string \<Rightarrow> string \<Rightarrow> json list \<Rightarrow> json" where
  "sample_component n t is =
     JObj [(''name'', JStr n), (''type'', JStr t), (''prep_time_minutes'', JNum (Finite 10)),
           (''cook_time_minutes'', JNum (Finite 12)), (''cook_temp_fahrenheit'', JNum (Finite 400)),
           (''cook_method'', JStr ''Roast''), (''portion_weight_grams'', JNum (Finite 150)),
           (''ingredients'', JArr is)]"

definition sample_recipe :: "string \<Rightarrow> json \<Rightarrow> json" where
  "sample_recipe n c =
     JObj [(''recipe_name'', JStr n), (''chef'', JStr ''Ana''), (''yield_count'', JNum (Finite 4)),
           (''allergens'', JArr [JStr ''fish'']), (''components'', JArr [c])]"

definition salt_doc :: ingredient where
  "salt_doc = \<lparr>i_name = ''Salt'', i_amount_per_portion_grams = Finite 2, sub_ingredients = None\<rparr>"

definition panko_doc :: sub_ingredient where
  "panko_doc = \<lparr>s_name = ''Panko'', s_amount_per_portion_grams = Finite 12\<rparr>"

definition herb_mix_doc :: ingredient where
  "herb_mix_doc =
     \<lparr>i_name = ''Herb mix'', i_amount_per_portion_grams = Finite 20,
      sub_ingredients = Some [panko_doc]\<rparr>"

definition sample_component_doc :: "string \<Rightarrow> string \<Rightarrow> ingredient list \<Rightarrow> component" where
  "sample_component_doc n t is =
     \<lparr>c_name = n, c_type = t, prep_time_minutes = Finite 10, cook_time_minutes = Finite 12,
      cook_temp_fahrenheit = Finite 400, cook_method = ''Roast'', portion_weight_grams = Finite 150,
      ingredients = is\<rparr>"

definition sample_doc :: "string \<Rightarrow> component \<Rightarrow> recipe" where
  "sample_doc n c =
     \<lparr>recipe_name = n, chef = ''Ana'', yield_count = Finite 4, allergens = [''fish''],
      components = [c]\<rparr>"

definition salmon :: json where
  "salmon = sample_recipe ''Salmon'' (sample_component ''Fish'' ''protein'' [salt, herb_mix])"

definition salmon_component_doc :: component where
  "salmon_component_doc = sample_component_doc ''Fish'' ''protein'' [salt_doc, herb_mix_doc]"

definition salmon_doc :: recipe where
  "salmon_doc = sample_doc ''Salmon'' salmon_component_doc"

text \<open>The salmon without a \<^verbatim>\<open>recipe_name\<close> key.\<close>

definition nameless :: json where
  "nameless =
     JObj [(''chef'', JStr ''Ana''), (''yield_count'', JNum (Finite 4)),
           (''allergens'', JArr [JStr ''fish'']),
           (''components'', JArr [sample_component ''Fish'' ''protein'' [salt, herb_mix]])]"



definition unnamed_component :: json where
  "unnamed_component = sample_component [] ''sauce'' [salt]"

definition unnamed :: json where
  "unnamed = sample_recipe ''Salmon'' unnamed_component"

definition unnamed_doc :: recipe where
  "unnamed_doc =
     sample_doc ''Salmon'' (sample_component_doc ''Unknown Component'' ''sauce'' [salt_doc])"



definition untyped_component :: json where
  "untyped_component =
     JObj [(''name'', JStr ''Fish''), (''prep_time_minutes'', JNum (Finite 10)),
           (''cook_time_minutes'', JNum (Finite 12)), (''cook_temp_fahrenheit'', JNum (Finite 400)),
           (''cook_method'', JStr ''Roast''), (''portion_weight_grams'', JNum (Finite 150)),
           (''ingredients'', JArr [salt])]"

definition untyped :: json where
  "untyped = sample_recipe ''Salmon'' untyped_component"

definition soup_null_chef :: json where
  "soup_null_chef =
     JObj [(''recipe_name'', JStr ''Soup''), (''chef'', JNull), (''yield_count'', JNum (Finite 0)),
           (''allergens'', JArr []), (''components'', JArr [])]"



section \<open>Sample requests and services\<close>

text \<open>
  A request body with a recipe text and one without; a service that throws, one that
  answers in prose that no decoder reads as JSON, and one whose answer decodes to the
  salmon.
\<close>

definition request_body :: json where
  "request_body = JObj [(''recipeText'', JStr ''Roast the fish'')]"

definition empty_body :: json where
  "empty_body = JObj []"

definition failing_model :: "(string \<times> string) list \<Rightarrow> string option" where
  "failing_model messages = None"

definition apology_model :: "(string \<times> string) list \<Rightarrow> string option" where
  "apology_model messages = Some ''Sorry, I can't process this.''"

definition no_json :: "string \<Rightarrow> json option" where
  "no_json text = None"

definition salmon_model :: "(string \<times> string) list \<Rightarrow> string option" where
  "salmon_model messages = Some ''salmon''"

definition salmon_decode :: "string \<Rightarrow> json option" where
  "salmon_decode text = Some salmon"

section \<open>Samples at the edges\<close>

text \<open>
  A soup whose yield overflows a double, and the document it gives. The salmon with a
  negative yield, with a negative cooking temperature, with a negative amount of salt and
  with a negative amount of panko in the herb mix. A recipe whose component has neither
  \<^verbatim>\<open>cook_method\<close> nor \<^verbatim>\<open>cook_temp_fahrenheit\<close>, and the document the extractRecipe
  module makes of it.
\<close>

definition soup_overflow :: json where
  "soup_overflow =
     JObj [(''recipe_name'', JStr ''Soup''), (''chef'', JStr []),
           (''yield_count'', JNum PosInfinity),
           (''allergens'', JArr []), (''components'', JArr [])]"

definition soup_overflow_doc :: recipe where
  "soup_overflow_doc =
     \<lparr>recipe_name = ''Soup'', chef = [], yield_count = PosInfinity, allergens = [],
      components = []\<rparr>"

definition negative_yield :: json where
  "negative_yield =
     JObj [(''recipe_name'', JStr ''Salmon''), (''chef'', JStr ''Ana''),
           (''yield_count'', JNum (Finite (- 4))),
           (''allergens'', JArr [JStr ''fish'']),
           (''components'', JArr [sample_component ''Fish'' ''protein'' [salt, herb_mix]])]"

definition cold_component :: json where
  "cold_component =
     JObj [(''name'', JStr ''Fish''), (''type'', JStr ''protein''),
           (''prep_time_minutes'', JNum (Finite 10)), (''cook_time_minutes'', JNum (Finite 12)),
           (''cook_temp_fahrenheit'', JNum (Finite (- 10))),
           (''cook_method'', JStr ''Freeze''), (''portion_weight_grams'', JNum (Finite 150)),
           (''ingredients'', JArr [salt])]"

definition cold :: json where
  "cold = sample_recipe ''Salmon'' cold_component"

definition negative_salt :: json where
  "negative_salt =
     JObj [(''name'', JStr ''Salt''), (''amount_per_portion_grams'', JNum (Finite (- 2)))]"

definition unsalted :: json where
  "unsalted = sample_recipe ''Salmon'' (sample_component ''Fish'' ''protein'' [negative_salt])"

definition negative_panko :: json where
  "negative_panko =
     JObj [(''name'', JStr ''Panko''), (''amount_per_portion_grams'', JNum (Finite (- 12)))]"

definition negative_herb_mix :: json where
  "negative_herb_mix =
     JObj [(''name'', JStr ''Herb mix''), (''amount_per_portion_grams'', JNum (Finite 20)),
           (''sub_ingredients'', JArr [negative_panko])]"

definition uncrusted :: json where
  "uncrusted =
     sample_recipe ''Salmon'' (sample_component ''Fish'' ''protein'' [negative_herb_mix])"




section \<open>Facts about numbers\<close>

lemma zero_le_number [simp]:
  "0 \<le> Finite r \<longleftrightarrow> 0 \<le> r" "0 \<le> PosInfinity" "\<not> 0 \<le> NegInfinity"
  by (simp_all add: less_eq_number_def zero_number_def)

lemma less_zero_number [simp]:
  "Finite r < 0 \<longleftrightarrow> r < 0" "\<not> PosInfinity < 0" "NegInfinity < 0"
  by (auto simp: less_number_def less_eq_number_def zero_number_def)

lemma Finite_eq_zero [simp]: "Finite r = 0 \<longleftrightarrow> r = 0" "0 = Finite r \<longleftrightarrow> r = 0"
  by (auto simp: zero_number_def)

lemma infinity_not_zero [simp]: "PosInfinity \<noteq> 0" "NegInfinity \<noteq> 0"
  by (simp_all add: zero_number_def)

lemma not_nonnegative: "\<not> 0 \<le> n \<longleftrightarrow> n < (0::number)"
  by (cases n) (auto simp: not_le)

lemma is_integer_zero [simp]: "is_integer 0"
  by (simp add: is_integer_def zero_number_def)

section \<open>Facts about the combinators\<close>

lemma those_eq_Some: "those xs = Some ys \<longleftrightarrow> xs = map Some ys"
  by (induction xs arbitrary: ys) (auto split: option.splits)

lemma z_array_Some:
  "z_array p v = Some ys \<longleftrightarrow>
     (\<exists>xs. v = Some (JArr xs) \<and> map (\<lambda>x. p (Some x)) xs = map Some ys)"
  by (cases "(p, v)" rule: z_array.cases) (auto simp: those_eq_Some)

lemma z_array_nth:
  assumes "z_array p (Some (JArr xs)) = Some ys"
  shows "length ys = length xs \<and> (\<forall>n<length xs. p (Some (xs ! n)) = Some (ys ! n))"
proof -
  from assms have m: "map (\<lambda>x. p (Some x)) xs = map Some ys"
    by (simp add: those_eq_Some)
  then have l: "length xs = length ys"
    by (rule map_eq_imp_length_eq)
  have "p (Some (xs ! n)) = Some (ys ! n)" if "n < length xs" for n
  proof -
    have "map (\<lambda>x. p (Some x)) xs ! n = map Some ys ! n" using m by simp
    with that l show ?thesis by simp
  qed
  with l show ?thesis by simp
qed

lemma z_array_elem:
  assumes "z_array p v = Some ys" "y \<in> set ys"
  shows "\<exists>x. p (Some x) = Some y"
proof -
  from assms(1) obtain xs where m: "map (\<lambda>x. p (Some x)) xs = map Some ys"
    by (auto simp: z_array_Some)
  from assms(2) have "Some y \<in> set (map Some ys)" by simp
  with m have "Some y \<in> set (map (\<lambda>x. p (Some x)) xs)" by simp
  then show ?thesis by auto
qed

lemma z_array_source_elem:
  assumes "z_array p (Some (JArr xs)) = Some ys" "x \<in> set xs"
  shows "p (Some x) \<noteq> None"
proof -
  from assms(2) obtain n where n: "n < length xs" "xs ! n = x"
    by (auto simp: in_set_conv_nth)
  with z_array_nth [OF assms(1)] show ?thesis by auto
qed

lemma z_array_all:
  assumes "z_array p v = Some ys" "\<And>x y. p (Some x) = Some y \<Longrightarrow> P y"
  shows "list_all P ys"
  using z_array_elem [OF assms(1)] assms(2) by (auto simp: list_all_iff)

lemma z_array_map:
  assumes "\<And>x. x \<in> set xs \<Longrightarrow> p (Some (f x)) = Some x"
  shows "z_array p (Some (JArr (map f xs))) = Some xs"
proof -
  have "map (\<lambda>x. p (Some x)) (map f xs) = map Some xs"
    using assms by simp
  then show ?thesis by (simp add: those_eq_Some)
qed

lemma z_array_z_string: "z_array z_string (Some (JArr (map JStr xs))) = Some xs"
  by (rule z_array_map) simp

lemma z_string_Some: "z_string v = Some s \<longleftrightarrow> v = Some (JStr s)"
  by (cases v rule: z_string.cases) auto

lemma z_string_min1_Some: "z_string_min1 v = Some s \<longleftrightarrow> v = Some (JStr s) \<and> s \<noteq> []"
  by (cases v rule: z_string_min1.cases) (auto simp: Suc_le_eq)

lemma z_number_nonnegative_Some:
  "z_number_nonnegative v = Some n \<longleftrightarrow> v = Some (JNum n) \<and> 0 \<le> n"
  by (cases v rule: z_number_nonnegative.cases) auto

lemma z_number_int_nonnegative_Some:
  "z_number_int_nonnegative v = Some n \<longleftrightarrow> v = Some (JNum n) \<and> is_integer n \<and> 0 \<le> n"
  by (cases v rule: z_number_int_nonnegative.cases) auto

lemma z_enum_Some: "z_enum vs v = Some s \<longleftrightarrow> v = Some (JStr s) \<and> s \<in> set vs"
  by (cases "(vs, v)" rule: z_enum.cases) auto

lemmas z_Some = z_string_Some z_string_min1_Some z_number_nonnegative_Some
  z_number_int_nonnegative_Some z_enum_Some

section \<open>What the route module's schema accepts\<close>

lemma SubIngredientObject_ok:
  "SubIngredientObject v = Some s \<Longrightarrow> sub_ingredient_ok s"
  by (auto simp: SubIngredientObject_def sub_ingredient_ok_def bind_eq_Some_conv z_Some
      split: if_splits)

lemma IngredientObject_ok:
  assumes "IngredientObject v = Some d"
  shows "0 \<le> i_amount_per_portion_grams d"
    and "sub_ingredients d = Some subs \<Longrightarrow> list_all sub_ingredient_ok subs"
proof -
  from assms obtain n a s where
    a: "z_number_nonnegative (get_prop (the v) ''amount_per_portion_grams'') = Some a"
    and s: "z_optional (z_array SubIngredientObject) (get_prop (the v) ''sub_ingredients'') = Some s"
    and d: "d = \<lparr>i_name = n, i_amount_per_portion_grams = a, sub_ingredients = s\<rparr>"
    by (auto simp: IngredientObject_def bind_eq_Some_conv split: if_splits)
  from a d show "0 \<le> i_amount_per_portion_grams d"
    by (simp add: z_Some)
  show "list_all sub_ingredient_ok subs" if "sub_ingredients d = Some subs"
  proof -
    from that d have "s = Some subs" by simp
    with s have "z_array SubIngredientObject (get_prop (the v) ''sub_ingredients'') = Some subs"
      by (cases "get_prop (the v) ''sub_ingredients''") auto
    then show ?thesis
      by (rule z_array_all) (rule SubIngredientObject_ok)
  qed
qed

lemma IngredientObject_sub_ingredients:
  assumes "IngredientObject (Some x) = Some d"
  shows "z_optional (z_array SubIngredientObject) (get_prop x ''sub_ingredients'') = Some (sub_ingredients d)"
  using assms
  by (auto simp: IngredientObject_def bind_eq_Some_conv split: if_splits)

lemma IngredientTransform_sub_ingredients:
  "sub_ingredients (IngredientTransform d) =
     (case sub_ingredients d of None \<Rightarrow> None | Some subs \<Rightarrow> if subs = [] then None else Some subs)"
  by (simp add: IngredientTransform_def Let_def split: option.splits)

lemma IngredientTransform_fields:
  "i_name (IngredientTransform d) = i_name d"
  "i_amount_per_portion_grams (IngredientTransform d) = i_amount_per_portion_grams d"
  by (simp_all add: IngredientTransform_def Let_def split: option.splits)

lemma IngredientSchema_Some:
  "IngredientSchema v = Some i \<longleftrightarrow>
     (\<exists>d. IngredientObject v = Some d \<and> i = IngredientTransform d)"
  by (auto simp: IngredientSchema_def)

lemma IngredientSchema_ok:
  assumes "IngredientSchema v = Some i"
  shows "ingredient_ok i"
proof -
  from assms obtain d where d: "IngredientObject v = Some d" and i: "i = IngredientTransform d"
    by (auto simp: IngredientSchema_def)
  show ?thesis
    using IngredientObject_ok [OF d]
    by (auto simp: ingredient_ok_def i IngredientTransform_sub_ingredients IngredientTransform_fields
        split: option.splits if_splits)
qed

lemma ComponentObject_ok:
  assumes "ComponentObject v = Some c"
  shows "c_type c \<in> set component_types"
    and "is_integer (prep_time_minutes c) \<and> 0 \<le> prep_time_minutes c"
    and "is_integer (cook_time_minutes c) \<and> 0 \<le> cook_time_minutes c"
    and "is_integer (cook_temp_fahrenheit c) \<and> 0 \<le> cook_temp_fahrenheit c"
    and "0 \<le> portion_weight_grams c"
    and "list_all ingredient_ok (ingredients c)"
proof -
  from assms obtain n t p k f m w ings where
    t: "z_enum component_types (get_prop (the v) ''type'') = Some t"
    and p: "z_number_int_nonnegative (get_prop (the v) ''prep_time_minutes'') = Some p"
    and k: "z_number_int_nonnegative (get_prop (the v) ''cook_time_minutes'') = Some k"
    and f: "z_number_int_nonnegative (get_prop (the v) ''cook_temp_fahrenheit'') = Some f"
    and w: "z_number_nonnegative (get_prop (the v) ''portion_weight_grams'') = Some w"
    and ings: "z_array IngredientSchema (get_prop (the v) ''ingredients'') = Some ings"
    and c: "c = \<lparr>c_name = n, c_type = t, prep_time_minutes = p, cook_time_minutes = k,
              cook_temp_fahrenheit = f, cook_method = m, portion_weight_grams = w,
              ingredients = ings\<rparr>"
    by (auto simp: ComponentObject_def bind_eq_Some_conv split: if_splits)
  from t c show "c_type c \<in> set component_types" by (simp add: z_Some)
  from p c show "is_integer (prep_time_minutes c) \<and> 0 \<le> prep_time_minutes c" by (simp add: z_Some)
  from k c show "is_integer (cook_time_minutes c) \<and> 0 \<le> cook_time_minutes c" by (simp add: z_Some)
  from f c show "is_integer (cook_temp_fahrenheit c) \<and> 0 \<le> cook_temp_fahrenheit c" by (simp add: z_Some)
  from w c show "0 \<le> portion_weight_grams c" by (simp add: z_Some)
  have "list_all ingredient_ok ings"
    using ings by (rule z_array_all) (rule IngredientSchema_ok)
  with c show "list_all ingredient_ok (ingredients c)" by simp
qed

lemma ComponentObject_fields:
  assumes "ComponentObject (Some x) = Some c"
  shows "get_prop x ''name'' = Some (JStr (c_name c))"
    and "get_prop x ''type'' = Some (JStr (c_type c))"
  using assms
  by (auto simp: ComponentObject_def bind_eq_Some_conv z_Some split: if_splits)

lemma or_number_id: "or_number n 0 = n"
  by (simp add: or_number_def)

lemma or_string_empty: "or_string s [] = s"
  by (simp add: or_string_def)

lemma component_types_nonempty: "t \<in> set component_types \<Longrightarrow> or_string t d = t"
  by (auto simp: component_types_def or_string_def)

lemma ComponentTransform_eq:
  "c_type c \<in> set component_types \<Longrightarrow>
   ComponentTransform c = c\<lparr>c_name := or_string (c_name c) ''Unknown Component''\<rparr>"
  by (simp add: ComponentTransform_def or_number_id or_string_empty or_array_def
      component_types_nonempty)

lemma ComponentTransform_ok:
  assumes "ComponentObject v = Some c"
  shows "component_ok (ComponentTransform c)"
  using ComponentObject_ok [OF assms]
  by (simp add: ComponentTransform_eq component_ok_def or_string_def)

lemma RecipeTransform_eq:
  "RecipeTransform d =
     d\<lparr>recipe_name := or_string (recipe_name d) ''Unknown Recipe'',
       components := map ComponentTransform (components d)\<rparr>"
  by (simp add: RecipeTransform_def or_number_id or_string_empty or_array_def)

lemma parser_parse_Inr:
  "parser_parse (Some j) = Inr doc \<longleftrightarrow>
     (\<exists>d. RecipeObject (Some j) = Some d \<and> doc = RecipeTransform d)"
  by (auto simp: parser_parse_def RecipeSchema_def split: option.splits)

lemma RecipeObject_fields:
  assumes "RecipeObject (Some j) = Some d"
  shows "get_prop j ''recipe_name'' = Some (JStr (recipe_name d))"
    and "get_prop j ''chef'' = Some (JStr (chef d))"
    and "get_prop j ''yield_count'' = Some (JNum (yield_count d))"
    and "0 \<le> yield_count d"
    and "z_array z_string (get_prop j ''allergens'') = Some (allergens d)"
    and "z_array ComponentObject (get_prop j ''components'') = Some (components d)"
  using assms
  by (auto simp: RecipeObject_def bind_eq_Some_conv z_Some split: if_splits)

lemma parser_parse_ok:
  assumes "parser_parse (Some j) = Inr doc"
  shows "recipe_ok doc"
proof -
  from assms obtain d where d: "RecipeObject (Some j) = Some d" and doc: "doc = RecipeTransform d"
    by (auto simp: parser_parse_Inr)
  have "list_all (\<lambda>c. component_ok (ComponentTransform c)) (components d)"
    using RecipeObject_fields(6) [OF d] by (rule z_array_all) (rule ComponentTransform_ok)
  then have "list_all component_ok (map ComponentTransform (components d))"
    by (simp add: list_all_iff)
  with RecipeObject_fields(4) [OF d] show ?thesis
    by (simp add: doc RecipeTransform_eq recipe_ok_def or_string_def)
qed

lemma recipe_ok_ingredient:
  assumes "recipe_ok doc" "c \<in> set (components doc)" "i \<in> set (ingredients c)"
  shows "component_ok c" and "ingredient_ok i"
proof -
  from assms(1,2) show c: "component_ok c"
    by (auto simp: recipe_ok_def list_all_iff)
  with assms(3) show "ingredient_ok i"
    by (auto simp: component_ok_def list_all_iff)
qed

lemma parser_parse_components:
  assumes "parser_parse (Some j) = Inr doc" "get_prop j ''components'' = Some (JArr xs)"
  shows "length (components doc) = length xs"
    and "n < length xs \<Longrightarrow>
           \<exists>c. ComponentObject (Some (xs ! n)) = Some c \<and> components doc ! n = ComponentTransform c"
proof -
  from assms(1) obtain d where d: "RecipeObject (Some j) = Some d" and doc: "doc = RecipeTransform d"
    by (auto simp: parser_parse_Inr)
  from RecipeObject_fields(6) [OF d] assms(2)
  have z: "z_array ComponentObject (Some (JArr xs)) = Some (components d)"
    by (simp del: z_array.simps)
  from z_array_nth [OF z] show "length (components doc) = length xs"
    by (simp add: doc RecipeTransform_eq)
  show "\<exists>c. ComponentObject (Some (xs ! n)) = Some c \<and> components doc ! n = ComponentTransform c"
    if "n < length xs"
    using z_array_nth [OF z] that by (simp add: doc RecipeTransform_eq)
qed

lemma parser_parse_rejects_component:
  assumes "get_prop j ''components'' = Some (JArr xs)" "x \<in> set xs"
    "ComponentObject (Some x) = None"
  shows "parser_parse (Some j) = Inl OutputParserException"
proof (cases "parser_parse (Some j)")
  case (Inl e)
  then show ?thesis by (cases e) simp
next
  case (Inr doc)
  then obtain d where d: "RecipeObject (Some j) = Some d"
    by (auto simp: parser_parse_Inr)
  from RecipeObject_fields(6) [OF d] assms(1)
  have "z_array ComponentObject (Some (JArr xs)) = Some (components d)"
    by (simp del: z_array.simps)
  from z_array_source_elem [OF this assms(2)] assms(3) show ?thesis by simp
qed

section \<open>Reading a document back\<close>

lemma json_of_ingredient_key:
  "get_prop (json_of_ingredient i) ''sub_ingredients'' =
     map_option (\<lambda>subs. JArr (map json_of_sub_ingredient subs)) (sub_ingredients i)"
proof -
  have "object_of_sub_ingredient written_number = json_of_sub_ingredient"
    by (rule ext) (simp add: json_of_sub_ingredient_def)
  then show ?thesis
    by (simp add: json_of_ingredient_def object_of_ingredient_def split: option.splits)
qed

lemma SubIngredientObject_value:
  "sub_ingredient_ok s \<Longrightarrow> SubIngredientObject (Some (object_of_sub_ingredient JNum s)) = Some s"
  by (simp add: SubIngredientObject_def object_of_sub_ingredient_def sub_ingredient_ok_def)

lemma IngredientObject_value:
  assumes "ingredient_ok i"
  shows "IngredientObject (Some (object_of_ingredient JNum i)) = Some i"
proof (cases "sub_ingredients i")
  case None
  with assms show ?thesis
    by (simp add: IngredientObject_def object_of_ingredient_def ingredient_ok_def)
next
  case (Some subs)
  with assms have "list_all sub_ingredient_ok subs"
    by (simp add: ingredient_ok_def)
  then have "z_array SubIngredientObject
      (Some (JArr (map (object_of_sub_ingredient JNum) subs))) = Some subs"
    by (intro z_array_map SubIngredientObject_value) (simp add: list_all_iff)
  with assms Some show ?thesis
    by (simp add: IngredientObject_def object_of_ingredient_def ingredient_ok_def
        del: z_array.simps)
qed

lemma IngredientTransform_id: "ingredient_ok i \<Longrightarrow> IngredientTransform i = i"
  by (cases "sub_ingredients i")
    (simp_all add: IngredientTransform_def ingredient_ok_def Let_def)

lemma IngredientSchema_value:
  "ingredient_ok i \<Longrightarrow> IngredientSchema (Some (object_of_ingredient JNum i)) = Some i"
  by (simp add: IngredientSchema_def IngredientObject_value IngredientTransform_id)

lemma ComponentObject_value:
  assumes "component_ok c"
  shows "ComponentObject (Some (object_of_component JNum c)) = Some c"
proof -
  from assms have "list_all ingredient_ok (ingredients c)"
    by (simp add: component_ok_def)
  then have "z_array IngredientSchema
      (Some (JArr (map (object_of_ingredient JNum) (ingredients c)))) = Some (ingredients c)"
    by (intro z_array_map IngredientSchema_value) (simp add: list_all_iff)
  with assms show ?thesis
    by (simp add: ComponentObject_def object_of_component_def component_ok_def
        del: z_array.simps)
qed

lemma ComponentTransform_id: "component_ok c \<Longrightarrow> ComponentTransform c = c"
  by (simp add: ComponentTransform_eq component_ok_def or_string_def)

lemma RecipeObject_value:
  assumes "recipe_ok d"
  shows "RecipeObject (Some (value_of_recipe d)) = Some d"
proof -
  from assms have "list_all component_ok (components d)"
    by (simp add: recipe_ok_def)
  then have "z_array ComponentObject
      (Some (JArr (map (object_of_component JNum) (components d)))) = Some (components d)"
    by (intro z_array_map ComponentObject_value) (simp add: list_all_iff)
  with assms show ?thesis
    by (simp add: RecipeObject_def value_of_recipe_def object_of_recipe_def recipe_ok_def
        z_array_z_string del: z_array.simps)
qed

lemma RecipeTransform_id:
  assumes "recipe_ok d"
  shows "RecipeTransform d = d"
proof -
  from assms have "map ComponentTransform (components d) = components d"
    by (simp add: recipe_ok_def list_all_iff map_idI ComponentTransform_id)
  with assms show ?thesis
    by (simp add: RecipeTransform_eq recipe_ok_def or_string_def)
qed

section \<open>The two schemas on one input\<close>




lemma IngredientSchema_fields:
  assumes "IngredientSchema (Some x) = Some i"
  shows "get_prop x ''name'' = Some (JStr (i_name i))"
    and "get_prop x ''amount_per_portion_grams'' = Some (JNum (i_amount_per_portion_grams i))"
proof -
  from assms obtain d where d: "IngredientObject (Some x) = Some d" and i: "i = IngredientTransform d"
    by (auto simp: IngredientSchema_Some)
  from d show "get_prop x ''name'' = Some (JStr (i_name i))"
    and "get_prop x ''amount_per_portion_grams'' = Some (JNum (i_amount_per_portion_grams i))"
    by (auto simp: i IngredientTransform_fields IngredientObject_def bind_eq_Some_conv z_Some
        split: if_splits)
qed


lemma ComponentObject_all_fields:
  assumes "ComponentObject (Some x) = Some c"
  shows "get_prop x ''prep_time_minutes'' = Some (JNum (prep_time_minutes c))"
    and "get_prop x ''cook_time_minutes'' = Some (JNum (cook_time_minutes c))"
    and "get_prop x ''cook_temp_fahrenheit'' = Some (JNum (cook_temp_fahrenheit c))"
    and "get_prop x ''cook_method'' = Some (JStr (cook_method c))"
    and "get_prop x ''portion_weight_grams'' = Some (JNum (portion_weight_grams c))"
    and "z_array IngredientSchema (get_prop x ''ingredients'') = Some (ingredients c)"
  using assms
  by (auto simp: ComponentObject_def bind_eq_Some_conv z_Some split: if_splits)





section \<open>From a source ingredient to the ingredient of the document\<close>

lemma ComponentTransform_ingredients: "ingredients (ComponentTransform c) = ingredients c"
  by (simp add: ComponentTransform_def or_array_def)

lemma parser_parse_ingredients:
  assumes "parser_parse (Some j) = Inr doc" "get_prop j ''components'' = Some (JArr xs)"
    "n < length xs" "get_prop (xs ! n) ''ingredients'' = Some (JArr ys)"
  shows "length (ingredients (components doc ! n)) = length ys"
    and "m < length ys \<Longrightarrow>
           IngredientSchema (Some (ys ! m)) = Some (ingredients (components doc ! n) ! m)"
proof -
  from parser_parse_components(2) [OF assms(1,2,3)] obtain c where
    c: "ComponentObject (Some (xs ! n)) = Some c" and t: "components doc ! n = ComponentTransform c"
    by blast
  from ComponentObject_all_fields(6) [OF c] assms(4)
  have z: "z_array IngredientSchema (Some (JArr ys)) = Some (ingredients c)"
    by (simp del: z_array.simps)
  from z_array_nth [OF z] show "length (ingredients (components doc ! n)) = length ys"
    by (simp add: t ComponentTransform_ingredients)
  show "IngredientSchema (Some (ys ! m)) = Some (ingredients (components doc ! n) ! m)"
    if "m < length ys"
    using z_array_nth [OF z] that by (simp add: t ComponentTransform_ingredients)
qed

lemma SubIngredientObject_fields:
  assumes "SubIngredientObject (Some z) = Some s"
  shows "get_prop z ''name'' = Some (JStr (s_name s))"
    and "get_prop z ''amount_per_portion_grams'' = Some (JNum (s_amount_per_portion_grams s))"
  using assms
  by (auto simp: SubIngredientObject_def bind_eq_Some_conv z_Some split: if_splits)

lemma IngredientSchema_without_sub_ingredients:
  assumes "IngredientSchema (Some y) = Some i"
    and "get_prop y ''sub_ingredients'' = None \<or> get_prop y ''sub_ingredients'' = Some (JArr [])"
  shows "sub_ingredients i = None"
proof -
  from assms(1) obtain d where d: "IngredientObject (Some y) = Some d" and i: "i = IngredientTransform d"
    by (auto simp: IngredientSchema_Some)
  from assms(2) IngredientObject_sub_ingredients [OF d]
  have "sub_ingredients d = None \<or> sub_ingredients d = Some []"
    by auto
  then show ?thesis
    by (auto simp: i IngredientTransform_sub_ingredients)
qed

lemma IngredientSchema_with_sub_ingredients:
  assumes "IngredientSchema (Some y) = Some i"
    and "get_prop y ''sub_ingredients'' = Some (JArr (z # zs))"
  shows "\<exists>subs. sub_ingredients i = Some subs \<and> length subs = length (z # zs) \<and>
           (\<forall>k<length subs.
              get_prop ((z # zs) ! k) ''name'' = Some (JStr (s_name (subs ! k))) \<and>
              get_prop ((z # zs) ! k) ''amount_per_portion_grams'' =
                Some (JNum (s_amount_per_portion_grams (subs ! k))))"
proof -
  from assms(1) obtain d where d: "IngredientObject (Some y) = Some d" and i: "i = IngredientTransform d"
    by (auto simp: IngredientSchema_Some)
  from assms(2) IngredientObject_sub_ingredients [OF d]
  have "map_option Some (z_array SubIngredientObject (Some (JArr (z # zs)))) =
          Some (sub_ingredients d)"
    by (simp del: z_array.simps)
  then have "\<exists>subs. sub_ingredients d = Some subs \<and>
          z_array SubIngredientObject (Some (JArr (z # zs))) = Some subs"
    by (cases "sub_ingredients d") (simp_all del: z_array.simps)
  then obtain subs where s: "sub_ingredients d = Some subs"
    and a: "z_array SubIngredientObject (Some (JArr (z # zs))) = Some subs"
    by blast
  note nth = z_array_nth [OF a]
  then have l: "length subs = length (z # zs)" by simp
  then have "subs \<noteq> []" by auto
  with s have r: "sub_ingredients i = Some subs"
    by (simp add: i IngredientTransform_sub_ingredients)
  have "get_prop ((z # zs) ! k) ''name'' = Some (JStr (s_name (subs ! k))) \<and>
        get_prop ((z # zs) ! k) ''amount_per_portion_grams'' =
          Some (JNum (s_amount_per_portion_grams (subs ! k)))"
    if "k < length subs" for k
  proof -
    from that l nth have "SubIngredientObject (Some ((z # zs) ! k)) = Some (subs ! k)"
      by simp
    from SubIngredientObject_fields [OF this] show ?thesis by simp
  qed
  with r l show ?thesis by blast
qed

section \<open>What the route module's schema rejects\<close>

lemma parser_parse_rejects:
  "RecipeObject (Some j) = None \<Longrightarrow> parser_parse (Some j) = Inl OutputParserException"
  by (simp add: parser_parse_def RecipeSchema_def)

lemma RecipeObject_rejects_yield:
  assumes "get_prop j ''yield_count'' = Some (JNum a)" "a < 0"
  shows "RecipeObject (Some j) = None"
proof (cases "RecipeObject (Some j)")
  case None
  then show ?thesis .
next
  case (Some d)
  from RecipeObject_fields(3,4) [OF Some] assms show ?thesis
    by (simp add: not_nonnegative [symmetric])
qed

lemma ComponentObject_rejects_number:
  assumes "k \<in> {''prep_time_minutes'', ''cook_time_minutes'', ''cook_temp_fahrenheit'',
                ''portion_weight_grams''}"
    and "get_prop x k = Some (JNum a)" "a < 0"
  shows "ComponentObject (Some x) = None"
proof (cases "ComponentObject (Some x)")
  case None
  then show ?thesis .
next
  case (Some c)
  note f = ComponentObject_all_fields(1,2,3,5) [OF Some]
  note ok = ComponentObject_ok(2,3,4,5) [OF Some]
  from assms(3) have "\<not> 0 \<le> a" by (simp add: not_nonnegative)
  with assms(1,2) f ok show ?thesis by auto
qed

lemma IngredientSchema_rejects_amount:
  assumes "get_prop y ''amount_per_portion_grams'' = Some (JNum a)" "a < 0"
  shows "IngredientSchema (Some y) = None"
proof (cases "IngredientSchema (Some y)")
  case None
  then show ?thesis .
next
  case (Some i)
  from IngredientSchema_ok [OF Some] have "0 \<le> i_amount_per_portion_grams i"
    by (simp add: ingredient_ok_def)
  with IngredientSchema_fields(2) [OF Some] assms show ?thesis
    by (simp add: not_nonnegative [symmetric])
qed

lemma SubIngredientObject_rejects_amount:
  assumes "get_prop z ''amount_per_portion_grams'' = Some (JNum a)" "a < 0"
  shows "SubIngredientObject (Some z) = None"
proof (cases "SubIngredientObject (Some z)")
  case None
  then show ?thesis .
next
  case (Some s)
  from SubIngredientObject_ok [OF Some] have "0 \<le> s_amount_per_portion_grams s"
    by (simp add: sub_ingredient_ok_def)
  with SubIngredientObject_fields(2) [OF Some] assms show ?thesis
    by (simp add: not_nonnegative [symmetric])
qed

lemma IngredientSchema_rejects_sub_ingredient:
  assumes "get_prop y ''sub_ingredients'' = Some (JArr zs)" "z \<in> set zs"
    "SubIngredientObject (Some z) = None"
  shows "IngredientSchema (Some y) = None"
proof (cases "IngredientSchema (Some y)")
  case None
  then show ?thesis .
next
  case (Some i)
  then obtain d where d: "IngredientObject (Some y) = Some d"
    by (auto simp: IngredientSchema_Some)
  from IngredientObject_sub_ingredients [OF d] assms(1)
  have "map_option Some (z_array SubIngredientObject (Some (JArr zs))) = Some (sub_ingredients d)"
    by (simp del: z_array.simps)
  then obtain subs where "z_array SubIngredientObject (Some (JArr zs)) = Some subs"
    by (cases "z_array SubIngredientObject (Some (JArr zs))") (simp_all del: z_array.simps)
  from z_array_source_elem [OF this assms(2)] assms(3) show ?thesis by simp
qed

lemma ComponentObject_rejects_ingredient:
  assumes "get_prop x ''ingredients'' = Some (JArr ys)" "y \<in> set ys"
    "IngredientSchema (Some y) = None"
  shows "ComponentObject (Some x) = None"
proof (cases "ComponentObject (Some x)")
  case None
  then show ?thesis .
next
  case (Some c)
  from ComponentObject_all_fields(6) [OF Some] assms(1)
  have "z_array IngredientSchema (Some (JArr ys)) = Some (ingredients c)"
    by (simp del: z_array.simps)
  from z_array_source_elem [OF this assms(2)] assms(3) show ?thesis by simp
qed

section \<open>When the second schema accepts what the first accepts\<close>






section \<open>The samples, evaluated\<close>

lemma salmon_parse: "parser_parse (Some salmon) = Inr salmon_doc"
  by code_simp

lemma unnamed_parse: "parser_parse (Some unnamed) = Inr unnamed_doc"
  by code_simp


lemma soup_overflow_parse: "parser_parse (Some soup_overflow) = Inr soup_overflow_doc"
  by code_simp


section \<open>Filling the prompt\<close>

lemma interpolate_one: "interpolate [Literal s] vals = Some s"
  by simp

lemma interpolate_two:
  "interpolate [Literal a, Variable u, Literal b, Variable v, Literal c] vals =
     (case vals u of
        None \<Rightarrow> None
      | Some x \<Rightarrow> (case vals v of None \<Rightarrow> None | Some y \<Rightarrow> Some (a @ x @ b @ y @ c)))"
  by (simp split: option.splits)

lemma prompt_invoke_Some:
  "prompt_invoke recipe_text format_instructions =
     Some [(''system'', systemPrompt),
           (''human'',
            human_opening @ format_instructions @ human_middle @ recipe_text @ human_closing)]"
  by (simp add: prompt_invoke_def prompt_def human_template_def interpolate_two
      interpolate_one del: interpolate.simps)

section \<open>The branches of the handler\<close>

lemma POST_no_body:
  "body = None \<or> body = Some JNull \<Longrightarrow> POST decode model fi body = failure_response"
  by (auto simp: POST_def)

lemma POST_other:
  "b \<noteq> JNull \<Longrightarrow>
   POST decode model fi (Some b) =
     (let recipeText = get_prop b ''recipeText'' in
      if \<not> truthy recipeText \<or> \<not> typeof_string recipeText then required_response
      else
        (case prompt_invoke (string_of recipeText) fi of
           None \<Rightarrow> failure_response
         | Some messages \<Rightarrow>
             (case model messages of
                None \<Rightarrow> failure_response
              | Some text \<Rightarrow>
                  (case parser_parse (decode text) of
                     Inl e \<Rightarrow> failure_response
                   | Inr result \<Rightarrow> \<lparr>status = 200, payload = json_of_recipe result\<rparr>))))"
  by (cases b) (simp_all add: POST_def)

lemma recipeText_rejected:
  "\<not> truthy v \<or> \<not> typeof_string v \<longleftrightarrow> (\<forall>s. v = Some (JStr s) \<longrightarrow> s = [])"
proof (cases v)
  case None
  then show ?thesis by simp
next
  case (Some x)
  then show ?thesis by (cases x) auto
qed

section \<open>Sub-ingredients are there exactly when there are some\<close>

text \<open>
  C1. In a document that the parser returns, no ingredient holds an empty
  \<open>sub_ingredients\<close>, and the written ingredient has the key exactly when the field is
  there. The document has a component for each source component and an ingredient for
  each source ingredient, in the same order. An ingredient whose source has no
  \<^verbatim>\<open>sub_ingredients\<close> key, or an empty array under it, has no \<open>sub_ingredients\<close> and
  is written without the key. An ingredient whose source has a non-empty array has a
  \<open>sub_ingredients\<close> of the same length, each entry with the name and the amount of the
  source entry at its position.
\<close>

theorem sub_ingredients_present_iff_nonempty:
  "(parser_parse (Some j) = Inr doc \<and> c \<in> set (components doc) \<and> i \<in> set (ingredients c) \<longrightarrow>
      sub_ingredients i \<noteq> Some [] \<and>
      get_prop (json_of_ingredient i) ''sub_ingredients'' =
        map_option (\<lambda>subs. JArr (map json_of_sub_ingredient subs)) (sub_ingredients i)) \<and>
   (parser_parse (Some j) = Inr doc \<and> get_prop j ''components'' = Some (JArr xs) \<and>
    n < length xs \<and> get_prop (xs ! n) ''ingredients'' = Some (JArr ys) \<longrightarrow>
      length (components doc) = length xs \<and>
      length (ingredients (components doc ! n)) = length ys) \<and>
   (parser_parse (Some j) = Inr doc \<and> get_prop j ''components'' = Some (JArr xs) \<and>
    n < length xs \<and> get_prop (xs ! n) ''ingredients'' = Some (JArr ys) \<and> m < length ys \<and>
    (get_prop (ys ! m) ''sub_ingredients'' = None \<or>
     get_prop (ys ! m) ''sub_ingredients'' = Some (JArr [])) \<longrightarrow>
      sub_ingredients (ingredients (components doc ! n) ! m) = None \<and>
      get_prop (json_of_ingredient (ingredients (components doc ! n) ! m)) ''sub_ingredients'' =
        None) \<and>
   (parser_parse (Some j) = Inr doc \<and> get_prop j ''components'' = Some (JArr xs) \<and>
    n < length xs \<and> get_prop (xs ! n) ''ingredients'' = Some (JArr ys) \<and> m' < length ys \<and>
    get_prop (ys ! m') ''sub_ingredients'' = Some (JArr (z # zs)) \<longrightarrow>
      (\<exists>subs. sub_ingredients (ingredients (components doc ! n) ! m') = Some subs \<and>
         length subs = length (z # zs) \<and>
         (\<forall>k<length subs.
            get_prop ((z # zs) ! k) ''name'' = Some (JStr (s_name (subs ! k))) \<and>
            get_prop ((z # zs) ! k) ''amount_per_portion_grams'' =
              Some (JNum (s_amount_per_portion_grams (subs ! k))))))"
proof (intro conjI impI)
  assume a: "parser_parse (Some j) = Inr doc \<and> c \<in> set (components doc) \<and> i \<in> set (ingredients c)"
  then have "recipe_ok doc" by (blast intro: parser_parse_ok)
  with a have "ingredient_ok i" by (blast intro: recipe_ok_ingredient)
  then show "sub_ingredients i \<noteq> Some []"
    by (auto simp: ingredient_ok_def)
  show "get_prop (json_of_ingredient i) ''sub_ingredients'' =
        map_option (\<lambda>subs. JArr (map json_of_sub_ingredient subs)) (sub_ingredients i)"
    by (rule json_of_ingredient_key)
next
  assume a: "parser_parse (Some j) = Inr doc \<and> get_prop j ''components'' = Some (JArr xs) \<and>
    n < length xs \<and> get_prop (xs ! n) ''ingredients'' = Some (JArr ys)"
  then show "length (components doc) = length xs"
    by (blast intro: parser_parse_components(1))
  from a show "length (ingredients (components doc ! n)) = length ys"
    by (blast intro: parser_parse_ingredients(1))
next
  assume a: "parser_parse (Some j) = Inr doc \<and> get_prop j ''components'' = Some (JArr xs) \<and>
    n < length xs \<and> get_prop (xs ! n) ''ingredients'' = Some (JArr ys) \<and> m < length ys \<and>
    (get_prop (ys ! m) ''sub_ingredients'' = None \<or>
     get_prop (ys ! m) ''sub_ingredients'' = Some (JArr []))"
  then have "IngredientSchema (Some (ys ! m)) = Some (ingredients (components doc ! n) ! m)"
    by (blast intro: parser_parse_ingredients(2))
  with a show s: "sub_ingredients (ingredients (components doc ! n) ! m) = None"
    by (blast intro: IngredientSchema_without_sub_ingredients)
  then show "get_prop (json_of_ingredient (ingredients (components doc ! n) ! m))
      ''sub_ingredients'' = None"
    by (simp add: json_of_ingredient_key)
next
  assume a: "parser_parse (Some j) = Inr doc \<and> get_prop j ''components'' = Some (JArr xs) \<and>
    n < length xs \<and> get_prop (xs ! n) ''ingredients'' = Some (JArr ys) \<and> m' < length ys \<and>
    get_prop (ys ! m') ''sub_ingredients'' = Some (JArr (z # zs))"
  then have "IngredientSchema (Some (ys ! m')) = Some (ingredients (components doc ! n) ! m')"
    by (blast intro: parser_parse_ingredients(2))
  with a show "\<exists>subs. sub_ingredients (ingredients (components doc ! n) ! m') = Some subs \<and>
         length subs = length (z # zs) \<and>
         (\<forall>k<length subs.
            get_prop ((z # zs) ! k) ''name'' = Some (JStr (s_name (subs ! k))) \<and>
            get_prop ((z # zs) ! k) ''amount_per_portion_grams'' =
              Some (JNum (s_amount_per_portion_grams (subs ! k))))"
    by (blast intro: IngredientSchema_with_sub_ingredients)
qed

theorem sub_ingredients_present_iff_nonempty_witness:
  "parser_parse (Some salmon) = Inr salmon_doc \<and>
   salmon_component_doc \<in> set (components salmon_doc) \<and>
   herb_mix_doc \<in> set (ingredients salmon_component_doc) \<and>
   sub_ingredients herb_mix_doc \<noteq> Some [] \<and>
   get_prop (json_of_ingredient herb_mix_doc) ''sub_ingredients'' =
     Some (JArr [json_of_sub_ingredient panko_doc]) \<and>
   get_prop salmon ''components'' =
     Some (JArr [sample_component ''Fish'' ''protein'' [salt, herb_mix]]) \<and>
   get_prop ([sample_component ''Fish'' ''protein'' [salt, herb_mix]] ! 0) ''ingredients'' =
     Some (JArr [salt, herb_mix]) \<and>
   length (components salmon_doc) = 1 \<and>
   length (ingredients (components salmon_doc ! 0)) = 2 \<and>
   get_prop ([salt, herb_mix] ! 0) ''sub_ingredients'' = Some (JArr []) \<and>
   sub_ingredients (ingredients (components salmon_doc ! 0) ! 0) = None \<and>
   get_prop (json_of_ingredient (ingredients (components salmon_doc ! 0) ! 0)) ''sub_ingredients'' =
     None \<and>
   get_prop ([salt, herb_mix] ! 1) ''sub_ingredients'' = Some (JArr [panko]) \<and>
   (\<exists>subs. sub_ingredients (ingredients (components salmon_doc ! 0) ! 1) = Some subs \<and>
      length subs = 1 \<and>
      get_prop ([panko] ! 0) ''name'' = Some (JStr (s_name (subs ! 0))) \<and>
      get_prop ([panko] ! 0) ''amount_per_portion_grams'' =
        Some (JNum (s_amount_per_portion_grams (subs ! 0))))"
proof -
  note t = sub_ingredients_present_iff_nonempty
    [of salmon salmon_doc salmon_component_doc herb_mix_doc
        "[sample_component ''Fish'' ''protein'' [salt, herb_mix]]" 0 "[salt, herb_mix]" 0 1
        panko "[]"]
  have c: "salmon_component_doc \<in> set (components salmon_doc)"
    by (simp add: salmon_doc_def sample_doc_def)
  have i: "herb_mix_doc \<in> set (ingredients salmon_component_doc)"
    by (simp add: salmon_component_doc_def sample_component_doc_def)
  have s: "sub_ingredients herb_mix_doc = Some [panko_doc]"
    by (simp add: herb_mix_doc_def)
  have xs: "get_prop salmon ''components'' =
      Some (JArr [sample_component ''Fish'' ''protein'' [salt, herb_mix]])"
    by (simp add: salmon_def sample_recipe_def)
  have n: "(0::nat) < length [sample_component ''Fish'' ''protein'' [salt, herb_mix]]"
    by simp
  have ys: "get_prop ([sample_component ''Fish'' ''protein'' [salt, herb_mix]] ! 0) ''ingredients'' =
      Some (JArr [salt, herb_mix])"
    by (simp add: sample_component_def)
  have m: "(0::nat) < length [salt, herb_mix]" "(1::nat) < length [salt, herb_mix]"
    by simp_all
  have e: "get_prop ([salt, herb_mix] ! 0) ''sub_ingredients'' = Some (JArr [])"
    by (simp add: salt_def)
  have f: "get_prop ([salt, herb_mix] ! 1) ''sub_ingredients'' = Some (JArr [panko])"
    by (simp add: herb_mix_def)
  from t salmon_parse c i
  have p1: "sub_ingredients herb_mix_doc \<noteq> Some [] \<and>
      get_prop (json_of_ingredient herb_mix_doc) ''sub_ingredients'' =
        map_option (\<lambda>subs. JArr (map json_of_sub_ingredient subs)) (sub_ingredients herb_mix_doc)"
    by blast
  then have p1': "get_prop (json_of_ingredient herb_mix_doc) ''sub_ingredients'' =
      Some (JArr [json_of_sub_ingredient panko_doc])"
    by (simp add: s)
  from t salmon_parse xs n ys
  have p2: "length (components salmon_doc) =
        length [sample_component ''Fish'' ''protein'' [salt, herb_mix]] \<and>
      length (ingredients (components salmon_doc ! 0)) = length [salt, herb_mix]"
    by blast
  then have p2': "length (components salmon_doc) = 1"
    "length (ingredients (components salmon_doc ! 0)) = 2"
    by simp_all
  from t salmon_parse xs n ys m(1) e
  have p3: "sub_ingredients (ingredients (components salmon_doc ! 0) ! 0) = None \<and>
      get_prop (json_of_ingredient (ingredients (components salmon_doc ! 0) ! 0))
        ''sub_ingredients'' = None"
    by blast
  from t salmon_parse xs n ys m(2) f
  have p4: "\<exists>subs. sub_ingredients (ingredients (components salmon_doc ! 0) ! 1) = Some subs \<and>
         length subs = length [panko] \<and>
         (\<forall>k<length subs.
            get_prop ([panko] ! k) ''name'' = Some (JStr (s_name (subs ! k))) \<and>
            get_prop ([panko] ! k) ''amount_per_portion_grams'' =
              Some (JNum (s_amount_per_portion_grams (subs ! k))))"
    by blast
  then have p4': "\<exists>subs. sub_ingredients (ingredients (components salmon_doc ! 0) ! 1) = Some subs \<and>
      length subs = 1 \<and>
      get_prop ([panko] ! 0) ''name'' = Some (JStr (s_name (subs ! 0))) \<and>
      get_prop ([panko] ! 0) ''amount_per_portion_grams'' =
        Some (JNum (s_amount_per_portion_grams (subs ! 0)))"
    by auto
  from salmon_parse c i p1 p1' xs ys p2' e p3 f p4' show ?thesis by blast
qed

section \<open>Missing data is not filled in\<close>

text \<open>
  C2 fails on the code. The soup with only \<^verbatim>\<open>recipe_name\<close> and \<^verbatim>\<open>components\<close>, the
  specification's own minimal input, is not completed with defaults: the parser throws.
  So does the soup whose chef is \<^verbatim>\<open>null\<close>. The object part of the schema asks for
  every key before the transform, with its fallbacks, is run. And a soup whose yield
  overflows is accepted, and its written body holds a \<^verbatim>\<open>null\<close>.
\<close>

theorem total_normalization_fails:
  "get_prop soup_minimal ''chef'' = None \<and>
   get_prop soup_minimal ''yield_count'' = None \<and>
   get_prop soup_minimal ''allergens'' = None \<and>
   parser_parse (Some soup_minimal) = Inl OutputParserException \<and>
   get_prop soup_null_chef ''chef'' = Some JNull \<and>
   parser_parse (Some soup_null_chef) = Inl OutputParserException \<and>
   parser_parse (Some soup_overflow) = Inr soup_overflow_doc \<and>
   get_prop (json_of_recipe soup_overflow_doc) ''yield_count'' = Some JNull \<and>
   has_null (json_of_recipe soup_overflow_doc)"
  by code_simp

text \<open>
  What the transform does do for a value that the object part accepts: it returns it,
  and nothing in it is missing.
\<close>

lemma parser_parse_of_accepted:
  "RecipeObject (Some j) = Some d \<Longrightarrow> parser_parse (Some j) = Inr (RecipeTransform d)"
  by (simp add: parser_parse_Inr)

section \<open>The component type\<close>




section \<open>Numbers are not negative\<close>

text \<open>
  C4, as the code has it. In every document the parser returns, the yield, the three
  times and temperatures, the portion weight and every amount, of ingredients and of
  sub-ingredients, are at least zero. A source in which one of them is a negative number
  gives no document: the parser fails, whether the number is the yield, a field of a
  component, the amount of an ingredient or the amount of a sub-ingredient.
\<close>

theorem numeric_fields_nonnegative:
  "(parser_parse (Some j) = Inr doc \<longrightarrow>
      0 \<le> yield_count doc \<and>
      (\<forall>c\<in>set (components doc).
         0 \<le> prep_time_minutes c \<and> 0 \<le> cook_time_minutes c \<and>
         0 \<le> cook_temp_fahrenheit c \<and> 0 \<le> portion_weight_grams c \<and>
         (\<forall>i\<in>set (ingredients c).
            0 \<le> i_amount_per_portion_grams i \<and>
            (\<forall>subs. sub_ingredients i = Some subs \<longrightarrow>
               (\<forall>s\<in>set subs. 0 \<le> s_amount_per_portion_grams s))))) \<and>
   (get_prop jy ''yield_count'' = Some (JNum ay) \<and> ay < 0 \<longrightarrow>
      parser_parse (Some jy) = Inl OutputParserException) \<and>
   (get_prop jc ''components'' = Some (JArr xc) \<and> c' \<in> set xc \<and>
    k \<in> {''prep_time_minutes'', ''cook_time_minutes'', ''cook_temp_fahrenheit'',
           ''portion_weight_grams''} \<and>
    get_prop c' k = Some (JNum ac) \<and> ac < 0 \<longrightarrow>
      parser_parse (Some jc) = Inl OutputParserException) \<and>
   (get_prop ji ''components'' = Some (JArr xi) \<and> ci \<in> set xi \<and>
    get_prop ci ''ingredients'' = Some (JArr yi) \<and> i' \<in> set yi \<and>
    get_prop i' ''amount_per_portion_grams'' = Some (JNum ai) \<and> ai < 0 \<longrightarrow>
      parser_parse (Some ji) = Inl OutputParserException) \<and>
   (get_prop js ''components'' = Some (JArr xs) \<and> cs \<in> set xs \<and>
    get_prop cs ''ingredients'' = Some (JArr ys) \<and> is \<in> set ys \<and>
    get_prop is ''sub_ingredients'' = Some (JArr zs) \<and> s' \<in> set zs \<and>
    get_prop s' ''amount_per_portion_grams'' = Some (JNum as) \<and> as < 0 \<longrightarrow>
      parser_parse (Some js) = Inl OutputParserException)"
proof (intro conjI impI)
  assume "parser_parse (Some j) = Inr doc"
  then have ok: "recipe_ok doc" by (rule parser_parse_ok)
  have "0 \<le> i_amount_per_portion_grams i \<and>
        (\<forall>subs. sub_ingredients i = Some subs \<longrightarrow>
           (\<forall>s\<in>set subs. 0 \<le> s_amount_per_portion_grams s))"
    if "ingredient_ok i" for i
    using that by (auto simp: ingredient_ok_def sub_ingredient_ok_def list_all_iff)
  then have "0 \<le> prep_time_minutes c \<and> 0 \<le> cook_time_minutes c \<and>
        0 \<le> cook_temp_fahrenheit c \<and> 0 \<le> portion_weight_grams c \<and>
        (\<forall>i\<in>set (ingredients c).
           0 \<le> i_amount_per_portion_grams i \<and>
           (\<forall>subs. sub_ingredients i = Some subs \<longrightarrow>
              (\<forall>s\<in>set subs. 0 \<le> s_amount_per_portion_grams s)))"
    if "component_ok c" for c
    using that by (auto simp: component_ok_def list_all_iff)
  with ok show "0 \<le> yield_count doc"
    and "\<forall>c\<in>set (components doc).
         0 \<le> prep_time_minutes c \<and> 0 \<le> cook_time_minutes c \<and>
         0 \<le> cook_temp_fahrenheit c \<and> 0 \<le> portion_weight_grams c \<and>
         (\<forall>i\<in>set (ingredients c).
            0 \<le> i_amount_per_portion_grams i \<and>
            (\<forall>subs. sub_ingredients i = Some subs \<longrightarrow>
               (\<forall>s\<in>set subs. 0 \<le> s_amount_per_portion_grams s)))"
    by (auto simp: recipe_ok_def list_all_iff)
next
  assume "get_prop jy ''yield_count'' = Some (JNum ay) \<and> ay < 0"
  then have "RecipeObject (Some jy) = None"
    by (blast intro: RecipeObject_rejects_yield)
  then show "parser_parse (Some jy) = Inl OutputParserException"
    by (rule parser_parse_rejects)
next
  assume a: "get_prop jc ''components'' = Some (JArr xc) \<and> c' \<in> set xc \<and>
    k \<in> {''prep_time_minutes'', ''cook_time_minutes'', ''cook_temp_fahrenheit'',
           ''portion_weight_grams''} \<and>
    get_prop c' k = Some (JNum ac) \<and> ac < 0"
  then have "ComponentObject (Some c') = None"
    by (elim conjE) (rule ComponentObject_rejects_number)
  with a show "parser_parse (Some jc) = Inl OutputParserException"
    using parser_parse_rejects_component [of jc xc c'] by simp
next
  assume a: "get_prop ji ''components'' = Some (JArr xi) \<and> ci \<in> set xi \<and>
    get_prop ci ''ingredients'' = Some (JArr yi) \<and> i' \<in> set yi \<and>
    get_prop i' ''amount_per_portion_grams'' = Some (JNum ai) \<and> ai < 0"
  then have "IngredientSchema (Some i') = None"
    using IngredientSchema_rejects_amount [of i' ai] by simp
  with a have "ComponentObject (Some ci) = None"
    using ComponentObject_rejects_ingredient [of ci yi i'] by simp
  with a show "parser_parse (Some ji) = Inl OutputParserException"
    using parser_parse_rejects_component [of ji xi ci] by simp
next
  assume a: "get_prop js ''components'' = Some (JArr xs) \<and> cs \<in> set xs \<and>
    get_prop cs ''ingredients'' = Some (JArr ys) \<and> is \<in> set ys \<and>
    get_prop is ''sub_ingredients'' = Some (JArr zs) \<and> s' \<in> set zs \<and>
    get_prop s' ''amount_per_portion_grams'' = Some (JNum as) \<and> as < 0"
  then have "SubIngredientObject (Some s') = None"
    using SubIngredientObject_rejects_amount [of s' as] by simp
  with a have "IngredientSchema (Some is) = None"
    using IngredientSchema_rejects_sub_ingredient [of "is" zs s'] by simp
  with a have "ComponentObject (Some cs) = None"
    using ComponentObject_rejects_ingredient [of cs ys "is"] by simp
  with a show "parser_parse (Some js) = Inl OutputParserException"
    using parser_parse_rejects_component [of js xs cs] by simp
qed

theorem numeric_fields_nonnegative_witness:
  "parser_parse (Some salmon) = Inr salmon_doc \<and>
   0 \<le> yield_count salmon_doc \<and>
   salmon_component_doc \<in> set (components salmon_doc) \<and>
   0 \<le> prep_time_minutes salmon_component_doc \<and>
   0 \<le> cook_time_minutes salmon_component_doc \<and>
   0 \<le> cook_temp_fahrenheit salmon_component_doc \<and>
   0 \<le> portion_weight_grams salmon_component_doc \<and>
   herb_mix_doc \<in> set (ingredients salmon_component_doc) \<and>
   0 \<le> i_amount_per_portion_grams herb_mix_doc \<and>
   sub_ingredients herb_mix_doc = Some [panko_doc] \<and>
   0 \<le> s_amount_per_portion_grams panko_doc \<and>
   get_prop negative_yield ''yield_count'' = Some (JNum (Finite (- 4))) \<and>
   parser_parse (Some negative_yield) = Inl OutputParserException \<and>
   get_prop cold_component ''cook_temp_fahrenheit'' = Some (JNum (Finite (- 10))) \<and>
   parser_parse (Some cold) = Inl OutputParserException \<and>
   get_prop negative_salt ''amount_per_portion_grams'' = Some (JNum (Finite (- 2))) \<and>
   parser_parse (Some unsalted) = Inl OutputParserException \<and>
   get_prop negative_panko ''amount_per_portion_grams'' = Some (JNum (Finite (- 12))) \<and>
   parser_parse (Some uncrusted) = Inl OutputParserException"
proof -
  note t = numeric_fields_nonnegative
    [of salmon salmon_doc
        negative_yield "Finite (- 4)"
        cold "[cold_component]" cold_component "''cook_temp_fahrenheit''" "Finite (- 10)"
        unsalted "[sample_component ''Fish'' ''protein'' [negative_salt]]"
        "sample_component ''Fish'' ''protein'' [negative_salt]" "[negative_salt]" negative_salt
        "Finite (- 2)"
        uncrusted "[sample_component ''Fish'' ''protein'' [negative_herb_mix]]"
        "sample_component ''Fish'' ''protein'' [negative_herb_mix]" "[negative_herb_mix]"
        negative_herb_mix "[negative_panko]" negative_panko "Finite (- 12)"]
  note t1 = conjunct1 [OF t]
  note t2 = conjunct1 [OF conjunct2 [OF t]]
  note t3 = conjunct1 [OF conjunct2 [OF conjunct2 [OF t]]]
  note t4 = conjunct1 [OF conjunct2 [OF conjunct2 [OF conjunct2 [OF t]]]]
  note t5 = conjunct2 [OF conjunct2 [OF conjunct2 [OF conjunct2 [OF t]]]]
  have c: "salmon_component_doc \<in> set (components salmon_doc)"
    by (simp add: salmon_doc_def sample_doc_def)
  have i: "herb_mix_doc \<in> set (ingredients salmon_component_doc)"
    by (simp add: salmon_component_doc_def sample_component_doc_def)
  have s: "sub_ingredients herb_mix_doc = Some [panko_doc]"
    by (simp add: herb_mix_doc_def)
  have p: "panko_doc \<in> set [panko_doc]" by simp
  from t1 salmon_parse
  have p1: "0 \<le> yield_count salmon_doc \<and>
      (\<forall>c\<in>set (components salmon_doc).
         0 \<le> prep_time_minutes c \<and> 0 \<le> cook_time_minutes c \<and>
         0 \<le> cook_temp_fahrenheit c \<and> 0 \<le> portion_weight_grams c \<and>
         (\<forall>i\<in>set (ingredients c).
            0 \<le> i_amount_per_portion_grams i \<and>
            (\<forall>subs. sub_ingredients i = Some subs \<longrightarrow>
               (\<forall>s\<in>set subs. 0 \<le> s_amount_per_portion_grams s))))"
    by (rule mp)
  have h2: "get_prop negative_yield ''yield_count'' = Some (JNum (Finite (- 4))) \<and>
      Finite (- 4) < 0"
    by (simp add: negative_yield_def)
  from t2 h2 have p2: "parser_parse (Some negative_yield) = Inl OutputParserException"
    by (rule mp)
  have h3: "get_prop cold ''components'' = Some (JArr [cold_component]) \<and>
      cold_component \<in> set [cold_component] \<and>
      ''cook_temp_fahrenheit'' \<in> {''prep_time_minutes'', ''cook_time_minutes'',
         ''cook_temp_fahrenheit'', ''portion_weight_grams''} \<and>
      get_prop cold_component ''cook_temp_fahrenheit'' = Some (JNum (Finite (- 10))) \<and>
      Finite (- 10) < 0"
    by (simp add: cold_def sample_recipe_def cold_component_def)
  from t3 h3 have p3: "parser_parse (Some cold) = Inl OutputParserException"
    by (rule mp)
  have h4: "get_prop unsalted ''components'' =
        Some (JArr [sample_component ''Fish'' ''protein'' [negative_salt]]) \<and>
      sample_component ''Fish'' ''protein'' [negative_salt] \<in>
        set [sample_component ''Fish'' ''protein'' [negative_salt]] \<and>
      get_prop (sample_component ''Fish'' ''protein'' [negative_salt]) ''ingredients'' =
        Some (JArr [negative_salt]) \<and>
      negative_salt \<in> set [negative_salt] \<and>
      get_prop negative_salt ''amount_per_portion_grams'' = Some (JNum (Finite (- 2))) \<and>
      Finite (- 2) < 0"
    by (simp add: unsalted_def sample_recipe_def sample_component_def negative_salt_def)
  from t4 h4 have p4: "parser_parse (Some unsalted) = Inl OutputParserException"
    by (rule mp)
  have h5: "get_prop uncrusted ''components'' =
        Some (JArr [sample_component ''Fish'' ''protein'' [negative_herb_mix]]) \<and>
      sample_component ''Fish'' ''protein'' [negative_herb_mix] \<in>
        set [sample_component ''Fish'' ''protein'' [negative_herb_mix]] \<and>
      get_prop (sample_component ''Fish'' ''protein'' [negative_herb_mix]) ''ingredients'' =
        Some (JArr [negative_herb_mix]) \<and>
      negative_herb_mix \<in> set [negative_herb_mix] \<and>
      get_prop negative_herb_mix ''sub_ingredients'' = Some (JArr [negative_panko]) \<and>
      negative_panko \<in> set [negative_panko] \<and>
      get_prop negative_panko ''amount_per_portion_grams'' = Some (JNum (Finite (- 12))) \<and>
      Finite (- 12) < 0"
    by (simp add: uncrusted_def sample_recipe_def sample_component_def negative_herb_mix_def
        negative_panko_def)
  from t5 h5 have p5: "parser_parse (Some uncrusted) = Inl OutputParserException"
    by (rule mp)
  from p1 c i s p
  have q: "0 \<le> yield_count salmon_doc \<and>
      0 \<le> prep_time_minutes salmon_component_doc \<and>
      0 \<le> cook_time_minutes salmon_component_doc \<and>
      0 \<le> cook_temp_fahrenheit salmon_component_doc \<and>
      0 \<le> portion_weight_grams salmon_component_doc \<and>
      0 \<le> i_amount_per_portion_grams herb_mix_doc \<and>
      0 \<le> s_amount_per_portion_grams panko_doc"
    by blast
  from salmon_parse q c i s h2 p2 h3 p3 h4 p4 h5 p5 show ?thesis by blast
qed

text \<open>The claim as stated fails for a negative yield: no document comes out.\<close>

theorem negative_source_counterexample:
  "get_prop negative_yield ''yield_count'' = Some (JNum (Finite (- 4))) \<and>
   parser_parse (Some negative_yield) = Inl OutputParserException"
  by code_simp

section \<open>Normalizing twice\<close>

text \<open>
  C5. A document that the parser returned, given to the schema again as the object it
  is, comes back unchanged.
\<close>

theorem normalization_idempotent:
  "parser_parse (Some j) = Inr doc \<Longrightarrow> parser_parse (Some (value_of_recipe doc)) = Inr doc"
proof -
  assume "parser_parse (Some j) = Inr doc"
  then have "recipe_ok doc" by (rule parser_parse_ok)
  then show ?thesis
    by (simp add: parser_parse_Inr RecipeObject_value RecipeTransform_id)
qed

theorem normalization_idempotent_witness:
  "parser_parse (Some salmon) = Inr salmon_doc \<and>
   parser_parse (Some (value_of_recipe salmon_doc)) = Inr salmon_doc \<and>
   parser_parse (Some soup_overflow) = Inr soup_overflow_doc \<and>
   parser_parse (Some (value_of_recipe soup_overflow_doc)) = Inr soup_overflow_doc"
  using normalization_idempotent [OF salmon_parse] salmon_parse
    normalization_idempotent [OF soup_overflow_parse] soup_overflow_parse
  by simp

text \<open>
  The same does not hold of the written body when a number has overflowed: the body has
  \<^verbatim>\<open>null\<close> in its place, which the schema refuses.
\<close>

lemma overflow_body_rejected:
  "parser_parse (Some (json_of_recipe soup_overflow_doc)) = Inl OutputParserException"
  by code_simp

section \<open>The responses of the handler\<close>

text \<open>
  C6, as the code has it. A request whose body is not JSON, or is \<^verbatim>\<open>null\<close>, gets the
  failure response. For any other body: when \<^verbatim>\<open>recipeText\<close> is missing, empty or not
  a string, the response is the one with status 400; otherwise a failing service and a
  completion that the parser rejects both get the failure response, and a completion
  that the parser accepts gets status 200 with the document. The failure response is one
  constant: status 500 and a fixed message.
\<close>

theorem POST_status:
  "(body = None \<or> body = Some JNull \<longrightarrow>
      POST decode model fi body = failure_response) \<and>
   (b \<noteq> JNull \<and> (\<forall>s. get_prop b ''recipeText'' = Some (JStr s) \<longrightarrow> s = []) \<longrightarrow>
      POST decode model fi (Some b) = required_response) \<and>
   (b' \<noteq> JNull \<and> get_prop b' ''recipeText'' = Some (JStr s) \<and> s \<noteq> [] \<and>
    prompt_invoke s fi = Some messages \<and> model messages = None \<longrightarrow>
      POST decode model fi (Some b') = failure_response) \<and>
   (b' \<noteq> JNull \<and> get_prop b' ''recipeText'' = Some (JStr s) \<and> s \<noteq> [] \<and>
    prompt_invoke s fi = Some messages \<and> model' messages = Some text \<and>
    parser_parse (decode' text) = Inl e \<longrightarrow>
      POST decode' model' fi (Some b') = failure_response) \<and>
   (b' \<noteq> JNull \<and> get_prop b' ''recipeText'' = Some (JStr s) \<and> s \<noteq> [] \<and>
    prompt_invoke s fi = Some messages \<and> model'' messages = Some text' \<and>
    parser_parse (decode'' text') = Inr doc \<longrightarrow>
      POST decode'' model'' fi (Some b') = \<lparr>status = 200, payload = json_of_recipe doc\<rparr>) \<and>
   status required_response = 400 \<and>
   failure_response =
     \<lparr>status = 500, payload = JObj [(''error'', JStr ''Failed to extract recipe data'')]\<rparr>"
proof (intro conjI impI)
  assume "body = None \<or> body = Some JNull"
  then show "POST decode model fi body = failure_response"
    by (rule POST_no_body)
next
  assume a: "b \<noteq> JNull \<and> (\<forall>s. get_prop b ''recipeText'' = Some (JStr s) \<longrightarrow> s = [])"
  with recipeText_rejected [of "get_prop b ''recipeText''"]
  have "\<not> truthy (get_prop b ''recipeText'') \<or> \<not> typeof_string (get_prop b ''recipeText'')"
    by blast
  with a show "POST decode model fi (Some b) = required_response"
    by (simp add: POST_other Let_def)
next
  assume "b' \<noteq> JNull \<and> get_prop b' ''recipeText'' = Some (JStr s) \<and> s \<noteq> [] \<and>
    prompt_invoke s fi = Some messages \<and> model messages = None"
  then show "POST decode model fi (Some b') = failure_response"
    by (simp add: POST_other)
next
  assume "b' \<noteq> JNull \<and> get_prop b' ''recipeText'' = Some (JStr s) \<and> s \<noteq> [] \<and>
    prompt_invoke s fi = Some messages \<and> model' messages = Some text \<and>
    parser_parse (decode' text) = Inl e"
  then show "POST decode' model' fi (Some b') = failure_response"
    by (simp add: POST_other)
next
  assume "b' \<noteq> JNull \<and> get_prop b' ''recipeText'' = Some (JStr s) \<and> s \<noteq> [] \<and>
    prompt_invoke s fi = Some messages \<and> model'' messages = Some text' \<and>
    parser_parse (decode'' text') = Inr doc"
  then show "POST decode'' model'' fi (Some b') = \<lparr>status = 200, payload = json_of_recipe doc\<rparr>"
    by (simp add: POST_other)
next
  show "status required_response = 400"
    by (simp add: required_response_def)
  show "failure_response =
     \<lparr>status = 500, payload = JObj [(''error'', JStr ''Failed to extract recipe data'')]\<rparr>"
    by (simp add: failure_response_def)
qed

theorem POST_status_witness:
  "POST no_json failing_model ''schema'' (Some JNull) = failure_response \<and>
   get_prop empty_body ''recipeText'' = None \<and>
   POST no_json failing_model ''schema'' (Some empty_body) = required_response \<and>
   get_prop request_body ''recipeText'' = Some (JStr ''Roast the fish'') \<and>
   failing_model (the (prompt_invoke ''Roast the fish'' ''schema'')) = None \<and>
   POST no_json failing_model ''schema'' (Some request_body) = failure_response \<and>
   parser_parse (no_json ''Sorry, I can't process this.'') = Inl OutputParserException \<and>
   POST no_json apology_model ''schema'' (Some request_body) = failure_response \<and>
   parser_parse (salmon_decode ''salmon'') = Inr salmon_doc \<and>
   POST salmon_decode salmon_model ''schema'' (Some request_body) =
     \<lparr>status = 200, payload = json_of_recipe salmon_doc\<rparr>"
proof -
  note t = POST_status
    [of "Some JNull" no_json failing_model "''schema''" empty_body request_body
        "''Roast the fish''" "the (prompt_invoke ''Roast the fish'' ''schema'')"
        apology_model "''Sorry, I can't process this.''" no_json OutputParserException
        salmon_model "''salmon''" salmon_decode salmon_doc]
  have e: "empty_body \<noteq> JNull" "get_prop empty_body ''recipeText'' = None"
    by (simp_all add: empty_body_def)
  have r: "request_body \<noteq> JNull"
    "get_prop request_body ''recipeText'' = Some (JStr ''Roast the fish'')"
    by (simp_all add: request_body_def)
  have m: "prompt_invoke ''Roast the fish'' ''schema'' =
      Some (the (prompt_invoke ''Roast the fish'' ''schema''))"
    by (simp add: prompt_invoke_Some)
  have f: "failing_model (the (prompt_invoke ''Roast the fish'' ''schema'')) = None"
    by (simp add: failing_model_def)
  have a: "apology_model (the (prompt_invoke ''Roast the fish'' ''schema'')) =
      Some ''Sorry, I can't process this.''"
    by (simp add: apology_model_def)
  have n: "parser_parse (no_json ''Sorry, I can't process this.'') = Inl OutputParserException"
    by (simp add: no_json_def parser_parse_def)
  have s: "salmon_model (the (prompt_invoke ''Roast the fish'' ''schema'')) = Some ''salmon''"
    by (simp add: salmon_model_def)
  have d: "parser_parse (salmon_decode ''salmon'') = Inr salmon_doc"
    by (simp add: salmon_decode_def salmon_parse)
  from t have p1: "POST no_json failing_model ''schema'' (Some JNull) = failure_response"
    by blast
  from t e have p2: "POST no_json failing_model ''schema'' (Some empty_body) = required_response"
    by simp
  from t r m f
  have p3: "POST no_json failing_model ''schema'' (Some request_body) = failure_response"
    by simp
  from t r m a n
  have p4: "POST no_json apology_model ''schema'' (Some request_body) = failure_response"
    by simp
  from t r m s d
  have p5: "POST salmon_decode salmon_model ''schema'' (Some request_body) =
     \<lparr>status = 200, payload = json_of_recipe salmon_doc\<rparr>"
    by simp
  from p1 e(2) p2 r(2) f p3 n p4 d p5 show ?thesis by simp
qed

text \<open>
  The claim as stated fails for a request whose body is \<^verbatim>\<open>null\<close>: it carries no
  \<^verbatim>\<open>recipeText\<close>, and the response has status 500.
\<close>

theorem POST_missing_text_counterexample:
  "get_prop JNull ''recipeText'' = None \<and>
   status (POST no_json failing_model ''schema'' (Some JNull)) = 500"
  by (simp add: POST_def failure_response_def)

section \<open>The recipe name\<close>

text \<open>
  C7 fails on the code. The salmon without a \<^verbatim>\<open>recipe_name\<close> key does not come out
  as \<^verbatim>\<open>Unknown Recipe\<close>: the parser throws, since the object part of the schema asks
  for the key before the transform, with its fallback, is run.
\<close>

theorem recipe_name_absent_fails:
  "get_prop nameless ''recipe_name'' = None \<and>
   parser_parse (Some nameless) = Inl OutputParserException"
  by code_simp

text \<open>
  What does hold: the recipe name of a returned document is never empty, and an empty
  source name comes out as \<^verbatim>\<open>Unknown Recipe\<close>.
\<close>

lemma recipe_name_of_returned_document:
  assumes "parser_parse (Some j) = Inr doc"
  shows "recipe_name doc \<noteq> []"
    and "get_prop j ''recipe_name'' = Some (JStr []) \<Longrightarrow> recipe_name doc = ''Unknown Recipe''"
proof -
  from assms have "recipe_ok doc" by (rule parser_parse_ok)
  then show "recipe_name doc \<noteq> []" by (simp add: recipe_ok_def)
  show "recipe_name doc = ''Unknown Recipe''" if "get_prop j ''recipe_name'' = Some (JStr [])"
  proof -
    from assms obtain d where d: "RecipeObject (Some j) = Some d" and doc: "doc = RecipeTransform d"
      by (auto simp: parser_parse_Inr)
    from RecipeObject_fields(1) [OF d] that have "recipe_name d = []" by simp
    then show ?thesis
      by (simp add: doc RecipeTransform_eq or_string_def)
  qed
qed

section \<open>The prompt carries the recipe text\<close>

text \<open>
  C8. The payload is a function of the format instructions and the recipe text alone: a
  fixed system message, and a human message that is the template's three literal parts
  with the two strings between them, whole and unchanged.
\<close>

theorem prompt_verbatim:
  "prompt_invoke recipe_text format_instructions =
     Some [(''system'', systemPrompt),
           (''human'',
            human_opening @ format_instructions @ human_middle @ recipe_text @ human_closing)] \<and>
   sublist recipe_text
     (human_opening @ format_instructions @ human_middle @ recipe_text @ human_closing)"
proof
  show "prompt_invoke recipe_text format_instructions =
     Some [(''system'', systemPrompt),
           (''human'',
            human_opening @ format_instructions @ human_middle @ recipe_text @ human_closing)]"
    by (simp add: prompt_invoke_def prompt_def human_template_def interpolate_two
        interpolate_one del: interpolate.simps)
  show "sublist recipe_text
     (human_opening @ format_instructions @ human_middle @ recipe_text @ human_closing)"
    by (metis append.assoc sublist_appendI)
qed

section \<open>The two modules\<close>




section \<open>Component names\<close>

text \<open>
  C10. No component of a returned document has an empty name: a source component whose
  name is the empty string is returned as \<^verbatim>\<open>Unknown Component\<close>, at the same position.
\<close>

theorem component_name_nonempty:
  "parser_parse (Some j) = Inr doc \<Longrightarrow>
     (\<forall>c\<in>set (components doc). c_name c \<noteq> []) \<and>
     (\<forall>xs n. get_prop j ''components'' = Some (JArr xs) \<and> n < length xs \<and>
             get_prop (xs ! n) ''name'' = Some (JStr []) \<longrightarrow>
             n < length (components doc) \<and>
             c_name (components doc ! n) = ''Unknown Component'')"
proof (intro conjI allI impI ballI)
  fix c
  assume "parser_parse (Some j) = Inr doc" "c \<in> set (components doc)"
  then have "component_ok c"
    using parser_parse_ok by (auto simp: recipe_ok_def list_all_iff)
  then show "c_name c \<noteq> []" by (simp add: component_ok_def)
next
  fix xs n
  assume p: "parser_parse (Some j) = Inr doc"
    and a: "get_prop j ''components'' = Some (JArr xs) \<and> n < length xs \<and>
             get_prop (xs ! n) ''name'' = Some (JStr [])"
  from parser_parse_components(1) [OF p] a show "n < length (components doc)" by simp
  from parser_parse_components(2) [OF p] a obtain c where
    c: "ComponentObject (Some (xs ! n)) = Some c" and t: "components doc ! n = ComponentTransform c"
    by blast
  from ComponentObject_fields(1) [OF c] a have "c_name c = []" by simp
  with ComponentObject_ok(1) [OF c] t
  show "c_name (components doc ! n) = ''Unknown Component''"
    by (simp add: ComponentTransform_eq or_string_def)
qed

theorem component_name_nonempty_witness:
  "parser_parse (Some unnamed) = Inr unnamed_doc \<and>
   get_prop unnamed ''components'' = Some (JArr [unnamed_component]) \<and>
   get_prop ([unnamed_component] ! 0) ''name'' = Some (JStr []) \<and>
   c_name (components unnamed_doc ! 0) = ''Unknown Component'' \<and>
   components unnamed_doc ! 0 \<in> set (components unnamed_doc) \<and>
   c_name (components unnamed_doc ! 0) \<noteq> []"
proof -
  have g: "get_prop unnamed ''components'' = Some (JArr [unnamed_component])"
    by (simp add: unnamed_def sample_recipe_def)
  have n: "get_prop ([unnamed_component] ! 0) ''name'' = Some (JStr [])"
    by (simp add: unnamed_component_def sample_component_def)
  have l: "(0::nat) < length [unnamed_component]"
    by simp
  have m: "components unnamed_doc ! 0 \<in> set (components unnamed_doc)"
    by (simp add: unnamed_doc_def sample_doc_def)
  from component_name_nonempty [OF unnamed_parse] g n l
  have p1: "c_name (components unnamed_doc ! 0) = ''Unknown Component''"
    by blast
  from component_name_nonempty [OF unnamed_parse] m
  have p2: "c_name (components unnamed_doc ! 0) \<noteq> []"
    by blast
  from unnamed_parse g n p1 m p2 show ?thesis by blast
qed

end
